theory Spec2Isabelle
  imports Main "HOL-Library.Word"
begin

section \<open>Bytes and errors\<close>

type_synonym byte = "8 word"

text \<open>
  The error values of the package.  \<open>ErrNew t msg\<close> is \<open>t.New(msg)\<close> and
  \<open>ErrWrap t e msg\<close> is \<open>t.Wrap(e, msg)\<close> of the errorx types \<open>ErrProtocol\<close> and
  \<open>ErrConn\<close>; \<open>SOCKSErr code cause\<close> is the struct \<open>Error{Code, Cause}\<close>;
  \<open>ErrorContext code\<close> is an \<open>errorContext\<close> used as a cause.  \<open>EOF\<close>, \<open>ErrClosed\<close>,
  \<open>ContextDone\<close> and \<open>NetError\<close> are the errors of the runtime (io.EOF, use of a closed
  connection, ctx.Err(), any other operating-system failure); \<open>NilPointer\<close> is the
  panic of a nil dereference and \<open>Panic\<close> any other panic.
\<close>

datatype errtype = ErrProtocol | ErrConn

datatype error =
    EOF
  | ErrClosed
  | ContextDone
  | NetError string
  | NilPointer
  | Panic string
  | ErrNew errtype string
  | ErrWrap errtype error string
  | ErrorContext byte
  | SOCKSErr byte error

section \<open>internal/errio: ErrReader\<close>

text \<open>
  An \<open>io.Reader\<close> is a state \<open>'r\<close> together with its \<open>Read\<close> method.  \<open>Read(p)\<close> with
  \<open>len(p) = n\<close> yields the bytes stored at the front of \<open>p\<close>, the error and the new
  state of the reader.
\<close>

type_synonym 'r read_fn = "nat \<Rightarrow> 'r \<Rightarrow> byte list \<times> error option \<times> 'r"

record 'r ErrReader =
  err :: "error option"
  rd :: 'r

definition NewReader :: "'r \<Rightarrow> 'r ErrReader" where
  "NewReader r = \<lparr>err = None, rd = r\<rparr>"

definition ErrReader_Read ::
  "'r read_fn \<Rightarrow> nat \<Rightarrow> 'r ErrReader \<Rightarrow> byte list \<times> error option \<times> 'r ErrReader" where
  "ErrReader_Read rdRead n r =
     (case err r of
        Some e \<Rightarrow> ([], Some e, r)
      | None \<Rightarrow>
          (case rdRead n (rd r) of
             (bs, e, rd') \<Rightarrow> (bs, e, r\<lparr>err := e, rd := rd'\<rparr>)))"

definition ErrReader_Error :: "'r ErrReader \<Rightarrow> error option" where
  "ErrReader_Error r = err r"

definition ErrReader_Wrap :: "errtype \<Rightarrow> string \<Rightarrow> 'r ErrReader \<Rightarrow> error option" where
  "ErrReader_Wrap t msg r =
     (case err r of None \<Rightarrow> None | Some e \<Rightarrow> Some (ErrWrap t e msg))"

text \<open>A run of successive reads of the given sizes, with the result of each.\<close>

fun ErrReader_Reads ::
  "'r read_fn \<Rightarrow> nat list \<Rightarrow> 'r ErrReader \<Rightarrow> (byte list \<times> error option) list \<times> 'r ErrReader" where
  "ErrReader_Reads rdRead [] r = ([], r)"
| "ErrReader_Reads rdRead (n # ns) r =
     (case ErrReader_Read rdRead n r of
        (bs, e, r') \<Rightarrow>
          (case ErrReader_Reads rdRead ns r' of
             (res, r'') \<Rightarrow> ((bs, e) # res, r'')))"

text \<open>\<open>bytes.Reader\<close>: at the end of the data every read, also an empty one, is EOF.\<close>

definition bytes_Read :: "byte list read_fn" where
  "bytes_Read n s = (if s = [] then ([], Some EOF, s) else (take n s, None, drop n s))"

section \<open>Sockets\<close>

text \<open>
  A \<open>net.Conn\<close> is a socket in a store of sockets, named by its index, because the
  same socket is held by several objects (the client \<open>Conn\<close> and the \<open>UDPConn\<close> of an
  association share the control connection).  A socket holds the bytes its peer has
  sent and that are not yet read (the peer closes after them), the writes made on it,
  one chunk for each \<open>Write\<close>, and whether it is closed.  As in package net, an empty
  read returns at once with no error, a read at the end of the data is EOF, and every
  operation on a closed socket fails.
\<close>

record sock =
  rx :: "byte list"
  tx :: "byte list list"
  closed :: bool

type_synonym store = "nat \<Rightarrow> sock"

definition sock_Read :: "sock read_fn" where
  "sock_Read n s =
     (if closed s then ([], Some ErrClosed, s)
      else if n = 0 then ([], None, s)
      else if rx s = [] then ([], Some EOF, s)
      else (take n (rx s), None, s\<lparr>rx := drop n (rx s)\<rparr>))"

definition sock_Write :: "byte list \<Rightarrow> sock \<Rightarrow> error option \<times> sock" where
  "sock_Write p s =
     (if closed s then (Some ErrClosed, s) else (None, s\<lparr>tx := tx s @ [p]\<rparr>))"

definition sock_Close :: "sock \<Rightarrow> error option \<times> sock" where
  "sock_Close s = (if closed s then (Some ErrClosed, s) else (None, s\<lparr>closed := True\<rparr>))"

definition net_Close :: "nat \<Rightarrow> store \<Rightarrow> error option \<times> store" where
  "net_Close i st = (case sock_Close (st i) of (e, s') \<Rightarrow> (e, st(i := s')))"

section \<open>Conn\<close>

record Conn =
  alive :: bool
  raw :: nat
  CloseOnContextDone :: bool

definition NewConn :: "nat \<Rightarrow> Conn" where
  "NewConn r = \<lparr>alive = True, raw = r, CloseOnContextDone = True\<rparr>"

definition Conn_Alive :: "Conn \<Rightarrow> bool" where
  "Conn_Alive c = alive c"

definition Conn_Raw :: "Conn \<Rightarrow> nat" where
  "Conn_Raw c = raw c"

definition Conn_Close :: "Conn \<Rightarrow> store \<Rightarrow> error option \<times> Conn \<times> store" where
  "Conn_Close c st =
     (let c' = c\<lparr>alive := False\<rparr> in
      case net_Close (raw c') st of (e, st') \<Rightarrow> (e, c', st'))"

definition onContextDone :: "Conn \<Rightarrow> store \<Rightarrow> Conn \<times> store" where
  "onContextDone c st =
     (if CloseOnContextDone c then (case Conn_Close c st of (e, c', st') \<Rightarrow> (c', st'))
      else (c, st))"

text \<open>The alive bit before and after each of \<open>n\<close> successive calls of \<open>Close\<close>.\<close>

fun alive_trace :: "nat \<Rightarrow> Conn \<Rightarrow> store \<Rightarrow> bool list" where
  "alive_trace 0 c st = [Conn_Alive c]"
| "alive_trace (Suc n) c st =
     Conn_Alive c # (case Conn_Close c st of (e, c', st') \<Rightarrow> alive_trace n c' st')"

text \<open>The number of steps of a trace at which the bit goes from true to false.\<close>

fun falls :: "bool list \<Rightarrow> nat" where
  "falls (a # b # xs) = (if a \<and> \<not> b then 1 else 0) + falls (b # xs)"
| "falls xs = 0"

section \<open>Addresses, requests and replies: the data\<close>

type_synonym addrType = byte
type_synonym cmdType = byte
type_synonym repType = byte
type_synonym authMethod = byte

definition AddrIPV4 :: addrType where "AddrIPV4 = 0x01"
definition AddrIPv6 :: addrType where "AddrIPv6 = 0x04"
definition AddrDomain :: addrType where "AddrDomain = 0x03"

record Addr =
  network :: string
  Atyp :: addrType
  Host :: string
  Port :: "16 word"

definition NilAddr :: Addr where
  "NilAddr = \<lparr>network = ''tcp'', Atyp = AddrIPV4, Host = ''0.0.0.0'', Port = 0\<rparr>"

text \<open>\<open>Dst\<close> and \<open>Bnd\<close> are pointers in the source: \<open>None\<close> is nil.\<close>

record Request =
  Cmd :: cmdType
  Dst :: "Addr option"

record Reply =
  Rep :: repType
  Bnd :: "Addr option"

section \<open>UDP associations: closing\<close>

record UDPConn =
  control :: nat
  data :: nat
  income_buf :: nat
  UDst :: "Addr option"

definition UDPConn_Close :: "UDPConn \<Rightarrow> store \<Rightarrow> error option \<times> store" where
  "UDPConn_Close c st =
     (case net_Close (control c) st of (e0, st1) \<Rightarrow> net_Close (data c) st1)"


record udpConn =
  Buffer :: nat
  client :: Conn
  outcome :: UDPConn
  income :: nat
  req :: Request

definition udpConn_Close :: "udpConn \<Rightarrow> store \<Rightarrow> store" where
  "udpConn_Close c st =
     (case net_Close (income c) st of (e0, st1) \<Rightarrow> snd (UDPConn_Close (outcome c) st1))"

text \<open>A store in which every socket is open and idle.\<close>

definition idle :: store where
  "idle = (\<lambda>i. \<lparr>rx = [], tx = [], closed = False\<rparr>)"

section \<open>The Go library: text forms of IP addresses\<close>

text \<open>
  The functions of packages net, net/netip and strconv that the package calls are
  written out here after their Go sources, as functions on strings.  A Go string is a
  sequence of bytes, a \<open>char\<close> here.
\<close>

definition isDigit :: "char \<Rightarrow> bool" where
  "isDigit c = (48 \<le> (of_char c :: nat) \<and> (of_char c :: nat) \<le> 57)"

definition digitVal :: "char \<Rightarrow> nat" where
  "digitVal c = of_char c - 48"

definition hexVal :: "char \<Rightarrow> nat option" where
  "hexVal c =
     (let n = (of_char c :: nat) in
      if 48 \<le> n \<and> n \<le> 57 then Some (n - 48)
      else if 97 \<le> n \<and> n \<le> 102 then Some (n - 97 + 10)
      else if 65 \<le> n \<and> n \<le> 70 then Some (n - 65 + 10)
      else None)"

text \<open>
  \<open>netip.parseIPv4Fields\<close>: the loop over the characters, with the character before
  the current one (\<open>None\<close> at the start), the value and the number of digits of the
  current field and the fields read so far.
\<close>

fun parseIPv4Fields_loop ::
  "string \<Rightarrow> char option \<Rightarrow> nat \<Rightarrow> nat \<Rightarrow> byte list \<Rightarrow> byte list option" where
  "parseIPv4Fields_loop [] prev val digLen fs =
     (if length fs < 3 then None else Some (fs @ [of_nat val]))"
| "parseIPv4Fields_loop (c # cs) prev val digLen fs =
     (if isDigit c then
        (if digLen = 1 \<and> val = 0 then None
         else let val' = val * 10 + digitVal c in
           if val' > 255 then None
           else parseIPv4Fields_loop cs (Some c) val' (digLen + 1) fs)
      else if c = CHR ''.'' then
        (if prev = None \<or> cs = [] \<or> prev = Some (CHR ''.'') then None
         else if length fs = 3 then None
         else parseIPv4Fields_loop cs (Some c) 0 0 (fs @ [of_nat val]))
      else None)"

definition parseIPv4Fields :: "string \<Rightarrow> byte list option" where
  "parseIPv4Fields s = parseIPv4Fields_loop s None 0 0 []"

text \<open>The hexadecimal field at the front of a string: its length and value.\<close>

fun scanHex :: "string \<Rightarrow> nat \<Rightarrow> nat \<Rightarrow> (nat \<times> nat) option" where
  "scanHex [] off acc = Some (off, acc)"
| "scanHex (c # cs) off acc =
     (case hexVal c of
        None \<Rightarrow> Some (off, acc)
      | Some v \<Rightarrow>
          (let acc' = acc * 16 + v in
           if off > 3 then None
           else if acc' > 65535 then None
           else scanHex cs (off + 1) acc'))"

definition zero16 :: "byte list" where
  "zero16 = [0, 0, 0, 0, 0, 0, 0, 0, 0, 0, 0, 0, 0, 0, 0, 0]"

text \<open>
  The main loop of \<open>netip.parseIPv6\<close>.  It returns the rest of the string, the
  number of bytes filled, the position of the ellipsis and the sixteen bytes.
\<close>

function parseIPv6_loop ::
  "string \<Rightarrow> nat \<Rightarrow> nat option \<Rightarrow> byte list \<Rightarrow>
   (string \<times> nat \<times> nat option \<times> byte list) option" where
  "parseIPv6_loop s i ellipsis ip =
     (if \<not> i < 16 then Some (s, i, ellipsis, ip)
      else
        (case scanHex s 0 0 of
           None \<Rightarrow> None
         | Some (off, acc) \<Rightarrow>
             if off = 0 then None
             else if off < length s \<and> s ! off = CHR ''.'' then
               (if ellipsis = None \<and> i \<noteq> 12 then None
                else if i + 4 > 16 then None
                else
                  (case parseIPv4Fields s of
                     None \<Rightarrow> None
                   | Some f \<Rightarrow>
                       Some ('''', i + 4, ellipsis,
                         ip[i := f ! 0, i + 1 := f ! 1, i + 2 := f ! 2, i + 3 := f ! 3])))
             else
               (let ip' = ip[i := of_nat (acc div 256), i + 1 := of_nat acc];
                    i' = i + 2;
                    s' = drop off s
                in if s' = [] then Some (s', i', ellipsis, ip')
                   else if hd s' \<noteq> CHR '':'' then None
                   else if length s' = 1 then None
                   else
                     (let s'' = tl s'
                      in if hd s'' = CHR '':'' then
                           (if ellipsis \<noteq> None then None
                            else if tl s'' = [] then Some ([], i', Some i', ip')
                            else parseIPv6_loop (tl s'') i' (Some i') ip')
                         else parseIPv6_loop s'' i' ellipsis ip'))))"
  by pat_completeness auto
termination
  by (relation "measure (\<lambda>(s, i, e, ip). 16 - i)") auto

text \<open>
  The expansion of the ellipsis: \<open>for j := i - 1; j >= ellipsis; j-- { ip[j+n] = ip[j] }\<close>
  and \<open>clear(ip[ellipsis : ellipsis+n])\<close>.
\<close>

fun shiftRight :: "nat \<Rightarrow> nat \<Rightarrow> nat \<Rightarrow> byte list \<Rightarrow> byte list" where
  "shiftRight 0 lo n ip = ip"
| "shiftRight (Suc j) lo n ip =
     (if Suc j \<le> lo then ip else shiftRight j lo n (ip[j + n := ip ! j]))"

fun clearRange :: "nat \<Rightarrow> nat \<Rightarrow> byte list \<Rightarrow> byte list" where
  "clearRange lo 0 ip = ip"
| "clearRange lo (Suc n) ip = clearRange (Suc lo) n (ip[lo := 0])"

text \<open>The zone after a percent sign; an empty zone is an error.\<close>

definition splitZone :: "string \<Rightarrow> (string \<times> string) option" where
  "splitZone s =
     (if CHR ''%'' \<in> set s then
        (let z = tl (dropWhile (\<lambda>c. c \<noteq> CHR ''%'') s) in
         if z = [] then None else Some (takeWhile (\<lambda>c. c \<noteq> CHR ''%'') s, z))
      else Some (s, ''''))"

definition parseIPv6 :: "string \<Rightarrow> (byte list \<times> string) option" where
  "parseIPv6 inp =
     (case splitZone inp of
        None \<Rightarrow> None
      | Some (s0, zone) \<Rightarrow>
          (let lead = (length s0 \<ge> 2 \<and> s0 ! 0 = CHR '':'' \<and> s0 ! 1 = CHR '':'');
               ellipsis = (if lead then Some 0 else None);
               s = (if lead then drop 2 s0 else s0)
           in if lead \<and> s = [] then Some (zero16, zone)
              else
                (case parseIPv6_loop s 0 ellipsis zero16 of
                   None \<Rightarrow> None
                 | Some (s', i, ellipsis', ip) \<Rightarrow>
                     if s' \<noteq> [] then None
                     else if i < 16 then
                       (case ellipsis' of
                          None \<Rightarrow> None
                        | Some e \<Rightarrow>
                            (let n = 16 - i
                             in Some (clearRange e n (shiftRight i e n ip), zone)))
                     else if ellipsis' \<noteq> None then None
                     else Some (ip, zone))))"

text \<open>\<open>netip.ParseAddr\<close> chooses the parser by the first of the characters . : %\<close>

fun firstSpecial :: "string \<Rightarrow> char option" where
  "firstSpecial [] = None"
| "firstSpecial (c # cs) =
     (if c = CHR ''.'' \<or> c = CHR '':'' \<or> c = CHR ''%'' then Some c else firstSpecial cs)"

text \<open>\<open>net.IPv4(a, b, c, d)\<close>: the sixteen-byte form of an IPv4 address.\<close>

definition IPv4 :: "byte \<Rightarrow> byte \<Rightarrow> byte \<Rightarrow> byte \<Rightarrow> byte list" where
  "IPv4 a b c d = [0, 0, 0, 0, 0, 0, 0, 0, 0, 0, 0xff, 0xff, a, b, c, d]"

text \<open>
  \<open>net.ParseIP\<close>: \<open>netip.ParseAddr\<close>, refusing a zone, as sixteen bytes; \<open>None\<close> is
  the nil IP.
\<close>

definition ParseIP :: "string \<Rightarrow> byte list option" where
  "ParseIP s =
     (case firstSpecial s of
        None \<Rightarrow> None
      | Some c \<Rightarrow>
          if c = CHR ''.'' then
            (case parseIPv4Fields s of
               None \<Rightarrow> None
             | Some f \<Rightarrow> Some (IPv4 (f ! 0) (f ! 1) (f ! 2) (f ! 3)))
          else if c = CHR '':'' then
            (case parseIPv6 s of
               None \<Rightarrow> None
             | Some (ip, zone) \<Rightarrow> if zone \<noteq> '''' then None else Some ip)
          else None)"

text \<open>\<open>IP.To4\<close> and \<open>IP.To16\<close>, on an IP that may be nil.\<close>

definition To4 :: "byte list option \<Rightarrow> byte list option" where
  "To4 ip =
     (case ip of
        None \<Rightarrow> None
      | Some p \<Rightarrow>
          if length p = 4 then Some p
          else if length p = 16 \<and> take 10 p = [0, 0, 0, 0, 0, 0, 0, 0, 0, 0]
                  \<and> p ! 10 = 0xff \<and> p ! 11 = 0xff
          then Some (drop 12 p)
          else None)"

definition To16 :: "byte list option \<Rightarrow> byte list option" where
  "To16 ip =
     (case ip of
        None \<Rightarrow> None
      | Some p \<Rightarrow>
          if length p = 4 then Some (IPv4 (p ! 0) (p ! 1) (p ! 2) (p ! 3))
          else if length p = 16 then Some p
          else None)"

text \<open>Formatting: \<open>netip.appendDecimal\<close>, \<open>appendHex\<close>, \<open>appendTo4\<close>, \<open>appendTo6\<close>.\<close>

definition digitChar :: "nat \<Rightarrow> char" where
  "digitChar n = ''0123456789abcdef'' ! n"

definition appendDecimal :: "nat \<Rightarrow> string" where
  "appendDecimal x =
     (if x \<ge> 100 then [digitChar (x div 100)] else []) @
     (if x \<ge> 10 then [digitChar (x div 10 mod 10)] else []) @
     [digitChar (x mod 10)]"

definition appendHex :: "nat \<Rightarrow> string" where
  "appendHex x =
     (if x \<ge> 0x1000 then [digitChar (x div 0x1000)] else []) @
     (if x \<ge> 0x100 then [digitChar (x div 0x100 mod 16)] else []) @
     (if x \<ge> 0x10 then [digitChar (x div 0x10 mod 16)] else []) @
     [digitChar (x mod 16)]"

definition appendTo4 :: "byte list \<Rightarrow> string" where
  "appendTo4 p =
     appendDecimal (unat (p ! 0)) @ ''.'' @ appendDecimal (unat (p ! 1)) @ ''.'' @
     appendDecimal (unat (p ! 2)) @ ''.'' @ appendDecimal (unat (p ! 3))"

text \<open>The eight 16-bit groups of an address.\<close>

fun v6u16 :: "byte list \<Rightarrow> nat list" where
  "v6u16 (hi # lo # rest) = (unat hi * 256 + unat lo) # v6u16 rest"
| "v6u16 rest = []"

text \<open>
  The longest run of at least two zero groups, the first one among equals: the groups
  from index \<open>i\<close> on, the index, and the best run so far (255, 255 when there is none).
\<close>

definition longerRun :: "nat \<Rightarrow> nat \<Rightarrow> nat \<times> nat \<Rightarrow> nat \<times> nat" where
  "longerRun i l z = (if l \<ge> 2 \<and> l > snd z - fst z then (i, i + l) else z)"

fun findZeros :: "nat list \<Rightarrow> nat \<Rightarrow> nat \<times> nat \<Rightarrow> nat \<times> nat" where
  "findZeros [] i z = z"
| "findZeros (g # gs) i z =
     findZeros gs (i + 1) (longerRun i (length (takeWhile (\<lambda>x. x = 0) (g # gs))) z)"

text \<open>
  The output loop.  In the branch of the ellipsis \<open>i\<close> jumps to the end of the run,
  which lies after its start.
\<close>

function appendGroups :: "nat list \<Rightarrow> nat \<times> nat \<Rightarrow> nat \<Rightarrow> string" where
  "appendGroups gs z i =
     (if \<not> i < 8 then []
      else if i = fst z \<and> i < snd z then
        '':'' @ '':'' @
          (if snd z \<ge> 8 then [] else appendHex (gs ! snd z) @ appendGroups gs z (snd z + 1))
      else (if i > 0 then '':'' else []) @ appendHex (gs ! i) @ appendGroups gs z (i + 1))"
  by pat_completeness auto
termination
  by (relation "measure (\<lambda>(gs, z, i). 8 - i)") auto

definition appendTo6 :: "byte list \<Rightarrow> string" where
  "appendTo6 ip = (let gs = v6u16 ip in appendGroups gs (findZeros gs 0 (255, 255)) 0)"

definition hexString :: "byte list \<Rightarrow> string" where
  "hexString b = concat (map (\<lambda>x. [digitChar (unat x div 16), digitChar (unat x mod 16)]) b)"

text \<open>\<open>IP.String\<close>\<close>

definition IP_String :: "byte list \<Rightarrow> string" where
  "IP_String ip =
     (if length ip = 0 then ''<nil>''
      else if length ip \<noteq> 4 \<and> length ip \<noteq> 16 then ''?'' @ hexString ip
      else
        (case To4 (Some ip) of
           Some p4 \<Rightarrow> appendTo4 p4
         | None \<Rightarrow> appendTo6 ip))"

section \<open>The Go library: host and port\<close>

fun indexByte :: "string \<Rightarrow> char \<Rightarrow> nat option" where
  "indexByte [] c = None"
| "indexByte (x # xs) c = (if x = c then Some 0 else map_option Suc (indexByte xs c))"

definition lastIndexByte :: "string \<Rightarrow> char \<Rightarrow> nat option" where
  "lastIndexByte s c = map_option (\<lambda>k. length s - 1 - k) (indexByte (rev s) c)"

text \<open>\<open>net.SplitHostPort\<close>; \<open>None\<close> is any of its errors.\<close>

definition SplitHostPort :: "string \<Rightarrow> (string \<times> string) option" where
  "SplitHostPort hostport =
     (case lastIndexByte hostport (CHR '':'') of
        None \<Rightarrow> None
      | Some i \<Rightarrow>
          (let bracket =
             (if hostport ! 0 = CHR ''[''
              then
                (case indexByte hostport (CHR '']'') of
                   None \<Rightarrow> None
                 | Some e \<Rightarrow>
                     if e + 1 = length hostport then None
                     else if e + 1 = i then Some (take (e - 1) (drop 1 hostport), 1, e + 1)
                     else None)
              else
                (let host = take i hostport
                 in if indexByte host (CHR '':'') \<noteq> None then None else Some (host, 0, 0)))
           in case bracket of
                None \<Rightarrow> None
              | Some (host, j, k) \<Rightarrow>
                  if indexByte (drop j hostport) (CHR ''['') \<noteq> None then None
                  else if indexByte (drop k hostport) (CHR '']'') \<noteq> None then None
                  else Some (host, drop (i + 1) hostport)))"

text \<open>\<open>net.JoinHostPort\<close>\<close>

definition JoinHostPort :: "string \<Rightarrow> string \<Rightarrow> string" where
  "JoinHostPort host port =
     (if indexByte host (CHR '':'') \<noteq> None \<or> indexByte host (CHR ''%'') \<noteq> None
      then ''['' @ host @ '']:'' @ port
      else host @ '':'' @ port)"

text \<open>
  \<open>strconv.ParseUint(s, 10, 16)\<close>: decimal digits only, at least one, and a value of
  at most 65535; \<open>None\<close> is a syntax or range error.
\<close>

fun ParseUint_loop :: "string \<Rightarrow> nat \<Rightarrow> nat option" where
  "ParseUint_loop [] n = Some n"
| "ParseUint_loop (c # cs) n =
     (if \<not> isDigit c then None
      else let n1 = n * 10 + digitVal c in
        if n1 > 65535 then None else ParseUint_loop cs n1)"

definition ParseUint :: "string \<Rightarrow> nat option" where
  "ParseUint s = (if s = [] then None else ParseUint_loop s 0)"

text \<open>\<open>strconv.FormatUint(n, 10)\<close>\<close>

function FormatUint :: "nat \<Rightarrow> string" where
  "FormatUint n =
     (if n < 10 then [digitChar n] else FormatUint (n div 10) @ [digitChar (n mod 10)])"
  by pat_completeness auto
termination
  by (relation "measure id") auto

section \<open>Addresses\<close>

definition ipLength :: "addrType \<Rightarrow> nat" where
  "ipLength version =
     (if version = AddrIPV4 then 4 else if version = AddrIPv6 then 16 else 0)"

definition ipBytes :: "byte list \<Rightarrow> byte list" where
  "ipBytes ip =
     (if To4 (Some ip) \<noteq> None then drop 12 ip
      else if To16 (Some ip) \<noteq> None then ip
      else [])"

definition parseAtyp :: "string \<Rightarrow> addrType" where
  "parseAtyp host =
     (let ip = ParseIP host
      in if To4 ip \<noteq> None then AddrIPV4
         else if To16 ip \<noteq> None then AddrIPv6
         else AddrDomain)"

definition ParseAddr :: "string \<Rightarrow> string \<Rightarrow> Addr option" where
  "ParseAddr net addr =
     (case SplitHostPort addr of
        None \<Rightarrow> None
      | Some (host0, port) \<Rightarrow>
          (let host = (if host0 = '''' then ''0.0.0.0'' else host0)
           in case ParseUint port of
                None \<Rightarrow> None
              | Some portUint \<Rightarrow>
                  Some \<lparr>network = net, Atyp = parseAtyp host, Host = host,
                        Port = of_nat portUint\<rparr>))"

definition Addr_String :: "Addr \<Rightarrow> string" where
  "Addr_String a = JoinHostPort (Host a) (FormatUint (unat (Port a)))"

definition Addr_Len :: "Addr \<Rightarrow> nat" where
  "Addr_Len a =
     (if Atyp a = AddrDomain then 1 + 1 + length (Host a) + 2
      else 1 + ipLength (Atyp a) + 2)"

section \<open>Strings and bytes\<close>

text \<open>The conversions \<open>[]byte(s)\<close> and \<open>string(b)\<close>.\<close>

definition bytes_of_string :: "string \<Rightarrow> byte list" where
  "bytes_of_string s = map (\<lambda>c. of_nat (of_char c)) s"

definition string_of_bytes :: "byte list \<Rightarrow> string" where
  "string_of_bytes b = map (\<lambda>x. char_of (unat x)) b"

section \<open>The Go library: bufio.Writer\<close>

text \<open>
  An \<open>io.Writer\<close> is a state \<open>'u\<close> together with its \<open>Write\<close> method, which here
  writes all of its argument or fails.  A \<open>bufio.Writer\<close> holds its size, the bytes
  buffered, its sticky error and the writer below it.
\<close>

type_synonym 'u write_fn = "byte list \<Rightarrow> 'u \<Rightarrow> error option \<times> 'u"

record 'u bufio =
  bsize :: nat
  bbuf :: "byte list"
  berr :: "error option"
  bwr :: 'u

definition bufio_Available :: "'u bufio \<Rightarrow> nat" where
  "bufio_Available b = bsize b - length (bbuf b)"

definition bufio_Buffered :: "'u bufio \<Rightarrow> nat" where
  "bufio_Buffered b = length (bbuf b)"

definition bufio_Flush :: "'u write_fn \<Rightarrow> 'u bufio \<Rightarrow> error option \<times> 'u bufio" where
  "bufio_Flush uw b =
     (case berr b of
        Some e \<Rightarrow> (Some e, b)
      | None \<Rightarrow>
          if bbuf b = [] then (None, b)
          else
            (case uw (bbuf b) (bwr b) of
               (None, u') \<Rightarrow> (None, b\<lparr>bbuf := [], bwr := u'\<rparr>)
             | (Some e, u') \<Rightarrow> (Some e, b\<lparr>berr := Some e, bwr := u'\<rparr>)))"

text \<open>
  The loop of \<open>Write\<close>: while the data does not fit, either hand it to the writer
  below (empty buffer) or fill the buffer and flush it.
\<close>

function bufio_Write_loop ::
  "'u write_fn \<Rightarrow> byte list \<Rightarrow> 'u bufio \<Rightarrow> byte list \<times> 'u bufio" where
  "bufio_Write_loop uw p b =
     (if length p > bufio_Available b \<and> berr b = None then
        (if bufio_Buffered b = 0 then
           (case uw p (bwr b) of
              (None, u') \<Rightarrow> bufio_Write_loop uw [] (b\<lparr>bwr := u'\<rparr>)
            | (Some e, u') \<Rightarrow> bufio_Write_loop uw p (b\<lparr>berr := Some e, bwr := u'\<rparr>))
         else
           (case bufio_Flush uw (b\<lparr>bbuf := bbuf b @ take (bufio_Available b) p\<rparr>) of
              (e, b') \<Rightarrow> bufio_Write_loop uw (drop (bufio_Available b) p) b'))
      else (p, b))"
  by pat_completeness auto
termination
  by (relation "measure (\<lambda>(uw, p, b).
        if berr b \<noteq> None then 0 else 2 * length p + (if bbuf b = [] then 0 else 1) + 1)")
    (auto simp: bufio_Flush_def bufio_Available_def bufio_Buffered_def
        split: option.splits prod.splits if_splits)

definition bufio_Write :: "'u write_fn \<Rightarrow> byte list \<Rightarrow> 'u bufio \<Rightarrow> error option \<times> 'u bufio" where
  "bufio_Write uw p b =
     (case bufio_Write_loop uw p b of
        (p', b') \<Rightarrow>
          (case berr b' of
             Some e \<Rightarrow> (Some e, b')
           | None \<Rightarrow> (None, b'\<lparr>bbuf := bbuf b' @ p'\<rparr>)))"

definition bufio_WriteByte :: "'u write_fn \<Rightarrow> byte \<Rightarrow> 'u bufio \<Rightarrow> error option \<times> 'u bufio" where
  "bufio_WriteByte uw c b =
     (case berr b of
        Some e \<Rightarrow> (Some e, b)
      | None \<Rightarrow>
          if bufio_Available b \<le> 0 then
            (case bufio_Flush uw b of
               (Some e, b') \<Rightarrow> (Some e, b')
             | (None, b') \<Rightarrow> (None, b'\<lparr>bbuf := bbuf b' @ [c]\<rparr>))
          else (None, b\<lparr>bbuf := bbuf b @ [c]\<rparr>))"

text \<open>
  \<open>WriteString\<close> hands a large string to the writer below only when that writer has
  a \<open>WriteString\<close> of its own (\<open>sw\<close>); a connection has none.  A \<open>Writer\<close> never has
  size 0, the case that the loop excludes.
\<close>

function bufio_WriteString_loop ::
  "'u write_fn \<Rightarrow> bool \<Rightarrow> byte list \<Rightarrow> 'u bufio \<Rightarrow> byte list \<times> 'u bufio" where
  "bufio_WriteString_loop uw sw s b =
     (if length s > bufio_Available b \<and> berr b = None \<and> bsize b > 0 then
        (if bufio_Buffered b = 0 \<and> sw then
           (case uw s (bwr b) of
              (None, u') \<Rightarrow> bufio_WriteString_loop uw sw [] (b\<lparr>bwr := u'\<rparr>)
            | (Some e, u') \<Rightarrow> bufio_WriteString_loop uw sw s (b\<lparr>berr := Some e, bwr := u'\<rparr>))
         else
           (case bufio_Flush uw (b\<lparr>bbuf := bbuf b @ take (bufio_Available b) s\<rparr>) of
              (e, b') \<Rightarrow> bufio_WriteString_loop uw sw (drop (bufio_Available b) s) b'))
      else (s, b))"
  by pat_completeness auto
termination
  by (relation "measure (\<lambda>(uw, sw, s, b).
        if berr b \<noteq> None then 0 else 2 * length s + (if bbuf b = [] then 0 else 1) + 1)")
    (auto simp: bufio_Flush_def bufio_Available_def bufio_Buffered_def
        split: option.splits prod.splits if_splits)

definition bufio_WriteString ::
  "'u write_fn \<Rightarrow> bool \<Rightarrow> string \<Rightarrow> 'u bufio \<Rightarrow> error option \<times> 'u bufio" where
  "bufio_WriteString uw sw s b =
     (case bufio_WriteString_loop uw sw (bytes_of_string s) b of
        (s', b') \<Rightarrow>
          (case berr b' of
             Some e \<Rightarrow> (Some e, b')
           | None \<Rightarrow> (None, b'\<lparr>bbuf := bbuf b' @ s'\<rparr>)))"

text \<open>
  \<open>bufio.NewWriterSize(w, size)\<close> returns \<open>w\<close> itself when \<open>w\<close> is a \<open>*bufio.Writer\<close>
  of at least that size, and a new \<open>Writer\<close> over \<open>w\<close> otherwise.  \<open>NewWriter_over\<close> is
  the second case; the callers below make the test.
\<close>

definition NewWriter_over :: "nat \<Rightarrow> 'u \<Rightarrow> 'u bufio" where
  "NewWriter_over n u =
     \<lparr>bsize = (if n \<le> 0 then 4096 else n), bbuf = [], berr = None, bwr = u\<rparr>"

datatype 'u writer = Plain 'u | Bufio "'u bufio"

section \<open>Addr.Write and Addr.Read\<close>

definition port_bytes :: "16 word \<Rightarrow> byte list" where
  "port_bytes p = [ucast (drop_bit 8 p), ucast p]"

definition bytes_port :: "byte list \<Rightarrow> 16 word" where
  "bytes_port b = ucast (b ! 0) * 256 + ucast (b ! 1)"

definition Addr_Write_port :: "'u write_fn \<Rightarrow> Addr \<Rightarrow> 'u bufio \<Rightarrow> error option \<times> 'u bufio" where
  "Addr_Write_port uw a w =
     (case bufio_Write uw (port_bytes (Port a)) w of (e, w') \<Rightarrow> (None, w'))"

text \<open>The body of \<open>Addr.Write\<close>, on the \<open>bufio.Writer\<close> \<open>w\<close> that it has obtained.\<close>

definition Addr_Write_to ::
  "'u write_fn \<Rightarrow> bool \<Rightarrow> Addr \<Rightarrow> 'u bufio \<Rightarrow> error option \<times> 'u bufio" where
  "Addr_Write_to uw sw a w0 =
     (case bufio_WriteByte uw (Atyp a) w0 of
        (e1, w1) \<Rightarrow>
          if Atyp a = AddrIPV4 \<or> Atyp a = AddrIPv6 then
            (case ParseIP (Host a) of
               None \<Rightarrow> (Some (ErrNew ErrProtocol ''invalid ip address''), w1)
             | Some ip \<Rightarrow>
                 (case bufio_Write uw (ipBytes ip) w1 of
                    (e2, w2) \<Rightarrow> Addr_Write_port uw a w2))
          else if Atyp a = AddrDomain then
            (case bufio_WriteByte uw (of_nat (length (Host a))) w1 of
               (e2, w2) \<Rightarrow>
                 (case bufio_WriteString uw sw (Host a) w2 of
                    (e3, w3) \<Rightarrow> Addr_Write_port uw a w3))
          else Addr_Write_port uw a w1)"

text \<open>
  \<open>Addr.Write(wr)\<close> when \<open>wr\<close> is a \<open>*bufio.Writer\<close>: a writer of at least \<open>a.Len()\<close>
  bytes is written to itself; over a smaller one a new \<open>Writer\<close> is made, which is
  never flushed, so that only what overflows it reaches \<open>wr\<close>.
\<close>

definition Addr_Write_bufio ::
  "'u write_fn \<Rightarrow> bool \<Rightarrow> Addr \<Rightarrow> 'u bufio \<Rightarrow> error option \<times> 'u bufio" where
  "Addr_Write_bufio uw sw a b =
     (if bsize b \<ge> Addr_Len a then Addr_Write_to uw sw a b
      else
        (case Addr_Write_to (bufio_Write uw) True a (NewWriter_over (Addr_Len a) b) of
           (e, w') \<Rightarrow> (e, bwr w')))"

text \<open>\<open>Addr.Write(wr)\<close> when \<open>wr\<close> is any other writer: again the new \<open>Writer\<close> is not flushed.\<close>

definition Addr_Write_plain ::
  "'u write_fn \<Rightarrow> bool \<Rightarrow> Addr \<Rightarrow> 'u \<Rightarrow> error option \<times> 'u" where
  "Addr_Write_plain uw sw a u =
     (case Addr_Write_to uw sw a (NewWriter_over (Addr_Len a) u) of
        (e, w') \<Rightarrow> (e, bwr w'))"

definition Addr_Write ::
  "'u write_fn \<Rightarrow> bool \<Rightarrow> Addr \<Rightarrow> 'u writer \<Rightarrow> error option \<times> 'u writer" where
  "Addr_Write uw sw a wr =
     (case wr of
        Bufio b \<Rightarrow> (case Addr_Write_bufio uw sw a b of (e, b') \<Rightarrow> (e, Bufio b'))
      | Plain u \<Rightarrow> (case Addr_Write_plain uw sw a u of (e, u') \<Rightarrow> (e, Plain u')))"

text \<open>
  Reading into a buffer: the bytes read replace the front of the buffer and the rest
  of it stays as it was.
\<close>

definition fill :: "byte list \<Rightarrow> byte list \<Rightarrow> byte list" where
  "fill buf got = take (length buf) (got @ drop (length got) buf)"

definition RepSucceeded :: repType where "RepSucceeded = 0x00"
definition RepServerFailure :: repType where "RepServerFailure = 0x01"
definition RepConnNotAllowed :: repType where "RepConnNotAllowed = 0x02"
definition RepNetworkUnreachable :: repType where "RepNetworkUnreachable = 0x03"
definition RepHostUnreachable :: repType where "RepHostUnreachable = 0x04"
definition RepConnRefused :: repType where "RepConnRefused = 0x05"
definition RepTTLExpired :: repType where "RepTTLExpired = 0x06"
definition RepCmdNotSupported :: repType where "RepCmdNotSupported = 0x07"
definition RepAddrNotSupported :: repType where "RepAddrNotSupported = 0x08"

text \<open>\<open>SOCKSError\<close>: nil when the code is 0.\<close>

definition SOCKSError :: "repType \<Rightarrow> error \<Rightarrow> error option" where
  "SOCKSError code cause = (if code = RepSucceeded then None else Some (SOCKSErr code cause))"

definition IsSOCKSError :: "error option \<Rightarrow> bool" where
  "IsSOCKSError e = (case e of Some (SOCKSErr code cause) \<Rightarrow> True | _ \<Rightarrow> False)"

definition new_Addr :: Addr where
  "new_Addr = \<lparr>network = '''', Atyp = 0, Host = '''', Port = 0\<rparr>"

definition Addr_Read_port ::
  "'r read_fn \<Rightarrow> Addr \<Rightarrow> 'r ErrReader \<Rightarrow> error option \<times> Addr \<times> 'r ErrReader" where
  "Addr_Read_port rf a erd =
     (case ErrReader_Read rf 2 erd of
        (g, e, erd') \<Rightarrow>
          (ErrReader_Wrap ErrProtocol ''unable to read the address'' erd',
           a\<lparr>Port := bytes_port (fill [0, 0] g)\<rparr>, erd'))"

text \<open>
  \<open>Addr.Read(network, rd)\<close>, where \<open>rd\<close> is the \<open>*ErrReader\<close> of the enclosing message,
  as at every call in the package, so that \<open>errio.NewReader\<close> returns it.  \<open>a\<close> is
  the address before the call.
\<close>

definition Addr_Read ::
  "'r read_fn \<Rightarrow> string \<Rightarrow> Addr \<Rightarrow> 'r ErrReader \<Rightarrow> error option \<times> Addr \<times> 'r ErrReader" where
  "Addr_Read rf netw a erd =
     (case ErrReader_Read rf 1 erd of
        (g1, e1, erd1) \<Rightarrow>
          (case ErrReader_Error erd1 of
             Some e \<Rightarrow> (Some e, a\<lparr>network := netw\<rparr>, erd1)
           | None \<Rightarrow>
               if hd (fill [0] g1) = AddrIPV4 \<or> hd (fill [0] g1) = AddrIPv6 then
                 (case ErrReader_Read rf (ipLength (hd (fill [0] g1))) erd1 of
                    (g2, e2, erd2) \<Rightarrow>
                      Addr_Read_port rf
                        (a\<lparr>network := netw, Atyp := hd (fill [0] g1),
                           Host := IP_String (fill (replicate (ipLength (hd (fill [0] g1))) 0) g2)\<rparr>)
                        erd2)
               else if hd (fill [0] g1) = AddrDomain then
                 (case ErrReader_Read rf 1 erd1 of
                    (g2, e2, erd2) \<Rightarrow>
                      (case ErrReader_Read rf (unat (hd (fill (fill [0] g1) g2))) erd2 of
                         (g3, e3, erd3) \<Rightarrow>
                           Addr_Read_port rf
                             (a\<lparr>network := netw, Atyp := hd (fill [0] g1),
                                Host := string_of_bytes
                                  (fill (replicate (unat (hd (fill (fill [0] g1) g2))) 0) g3)\<rparr>)
                             erd3))
               else
                 (SOCKSError RepAddrNotSupported (ErrNew ErrProtocol ''unknown address type''),
                  a\<lparr>network := netw, Atyp := hd (fill [0] g1)\<rparr>, erd1)))"

section \<open>The messages\<close>

text \<open>
  Modelled from the spec: the file that declares \<open>Version\<close> and \<open>isSOCKS5\<close> is not
  among the sources.  The protocol version byte is the constant 0x05 on every message,
  and a decoder rejects a message whose version byte is another one.
\<close>

definition Version :: byte where
  "Version = 0x05"

definition isSOCKS5 :: "byte \<Rightarrow> bool" where
  "isSOCKS5 ver = (ver = Version)"

definition CmdConnect :: cmdType where "CmdConnect = 0x01"
definition CmdBind :: cmdType where "CmdBind = 0x02"
definition CmdUDP :: cmdType where "CmdUDP = 0x03"

definition cmdType_Network :: "cmdType \<Rightarrow> string" where
  "cmdType_Network c =
     (if c = CmdConnect \<or> c = CmdBind then ''tcp''
      else if c = CmdUDP then ''udp''
      else ''unknown network'')"

definition cmdType_Valid :: "cmdType \<Rightarrow> bool" where
  "cmdType_Valid c = (c < 0x04)"



definition Request_Read ::
  "'r read_fn \<Rightarrow> Request \<Rightarrow> 'r \<Rightarrow> error option \<times> Request \<times> 'r" where
  "Request_Read rf r rd0 =
     (case ErrReader_Read rf 3 (NewReader rd0) of
        (g, e, erd) \<Rightarrow>
          if \<not> isSOCKS5 (fill [0, 0, 0] g ! 0) then
            (Some (ErrNew ErrProtocol ''invalid protocol version''), r, rd erd)
          else if \<not> cmdType_Valid (fill [0, 0, 0] g ! 1) then
            (SOCKSError RepCmdNotSupported (ErrNew ErrProtocol ''unknown command''),
             r\<lparr>Cmd := fill [0, 0, 0] g ! 1\<rparr>, rd erd)
          else
            (case Addr_Read rf (cmdType_Network (fill [0, 0, 0] g ! 1)) new_Addr erd of
               (e', a, erd') \<Rightarrow>
                 (e', r\<lparr>Cmd := fill [0, 0, 0] g ! 1, Dst := Some a\<rparr>, rd erd')))"

definition Reply_Write ::
  "'u write_fn \<Rightarrow> bool \<Rightarrow> Reply \<Rightarrow> 'u \<Rightarrow> error option \<times> 'u" where
  "Reply_Write uw sw r u =
     (case Bnd r of
        None \<Rightarrow> (Some NilPointer, u)
      | Some d \<Rightarrow>
          (case bufio_Write uw [Version, Rep r, 0x00] (NewWriter_over (3 + Addr_Len d) u) of
             (e1, w1) \<Rightarrow>
               (case Addr_Write_bufio uw sw d w1 of
                  (Some e, w2) \<Rightarrow> (Some e, bwr w2)
                | (None, w2) \<Rightarrow>
                    (case bufio_Flush uw w2 of
                       (Some e, w3) \<Rightarrow>
                         (Some (ErrWrap ErrProtocol e ''unable to write the reply''), bwr w3)
                     | (None, w3) \<Rightarrow> (None, bwr w3)))))"


record NegotiationRequest =
  Methods :: "authMethod list"

record NegotiationReply =
  Method :: authMethod

definition MethodNotRequired :: authMethod where "MethodNotRequired = 0x00"
definition MethodPassword :: authMethod where "MethodPassword = 0x02"
definition MethodNoAcceptable :: authMethod where "MethodNoAcceptable = 0xFF"


definition bytes2Methods :: "byte list \<Rightarrow> authMethod list" where
  "bytes2Methods b = map (\<lambda>x. x) b"


definition NegotiationRequest_Read ::
  "'r read_fn \<Rightarrow> NegotiationRequest \<Rightarrow> 'r \<Rightarrow> error option \<times> NegotiationRequest \<times> 'r" where
  "NegotiationRequest_Read rf r rd0 =
     (case ErrReader_Read rf 2 (NewReader rd0) of
        (g, e, erd) \<Rightarrow>
          if \<not> isSOCKS5 (fill [0, 0] g ! 0) then
            (Some (ErrNew ErrProtocol ''invalid protocol version''), r, rd erd)
          else
            (case ErrReader_Read rf (unat (fill [0, 0] g ! 1)) erd of
               (g', e', erd') \<Rightarrow>
                 (ErrReader_Wrap ErrProtocol ''unable to read the negotiation request'' erd',
                  r\<lparr>Methods := bytes2Methods (fill (replicate (unat (fill [0, 0] g ! 1)) 0) g')\<rparr>,
                  rd erd')))"

definition NegotiationReply_Write ::
  "'u write_fn \<Rightarrow> NegotiationReply \<Rightarrow> 'u \<Rightarrow> error option \<times> 'u" where
  "NegotiationReply_Write uw r u =
     (case uw [Version, Method r] u of
        (Some e, u') \<Rightarrow> (Some (ErrWrap ErrProtocol e ''unable to write the negotiation reply''), u')
      | (None, u') \<Rightarrow> (None, u'))"


type_synonym statusType = byte

definition subnegotiationVersion :: byte where "subnegotiationVersion = 0x01"
definition statusOK :: statusType where "statusOK = 0x00"
definition statusFailure :: statusType where "statusFailure = 0x01"

record PassRequest =
  uname :: "byte list"
  passwd :: "byte list"

record PassReply =
  Status :: statusType


definition PassRequest_Read ::
  "'r read_fn \<Rightarrow> PassRequest \<Rightarrow> 'r \<Rightarrow> error option \<times> PassRequest \<times> 'r" where
  "PassRequest_Read rf r rd0 =
     (case ErrReader_Read rf 2 (NewReader rd0) of
        (g, e, erd) \<Rightarrow>
          if fill [0, 0] g ! 0 \<noteq> subnegotiationVersion then
            (Some (ErrNew ErrProtocol ''subnegotiation version is wrong''), r, rd erd)
          else
            (case ErrReader_Read rf (unat (fill [0, 0] g ! 1)) erd of
               (g1, e1, erd1) \<Rightarrow>
                 (case ErrReader_Read rf 1 erd1 of
                    (g2, e2, erd2) \<Rightarrow>
                      (case ErrReader_Read rf (unat (hd (fill [fill [0, 0] g ! 0] g2))) erd2 of
                         (g3, e3, erd3) \<Rightarrow>
                           (ErrReader_Wrap ErrProtocol
                              ''unable to read the password authentication request'' erd3,
                            r\<lparr>uname := fill (replicate (unat (fill [0, 0] g ! 1)) 0) g1,
                              passwd :=
                                fill (replicate (unat (hd (fill [fill [0, 0] g ! 0] g2))) 0) g3\<rparr>,
                            rd erd3)))))"

definition PassReply_Write ::
  "'u write_fn \<Rightarrow> PassReply \<Rightarrow> 'u \<Rightarrow> error option \<times> 'u" where
  "PassReply_Write uw r u =
     (case uw [subnegotiationVersion, Status r] u of
        (Some e, u') \<Rightarrow>
          (Some (ErrWrap ErrProtocol e ''unable to write the password authentication reply''), u')
      | (None, u') \<Rightarrow> (None, u'))"







section \<open>Messages on a connection\<close>

text \<open>
  \<open>processMessage\<close> starts the handler in a goroutine and waits for its result or
  for the end of the context, whichever comes first.  Which one comes first is a
  matter of time; here a context carries the number of message operations that still
  complete before it is done (\<open>None\<close>: it is never done), and an operation cut short
  by the context has had no effect on the socket.  \<open>NilContext\<close> is a nil context.
\<close>

datatype go_context = NilContext | Context "nat option"

definition processMessage ::
  "go_context \<Rightarrow> Conn \<Rightarrow> store \<Rightarrow> 'm \<Rightarrow> (sock \<Rightarrow> error option \<times> 'm \<times> sock) \<Rightarrow>
   error option \<times> 'm \<times> go_context \<times> Conn \<times> store" where
  "processMessage ctx c st m handler =
     (case ctx of
        NilContext \<Rightarrow> (Some (Panic ''context must be non-nil''), m, ctx, c, st)
      | Context k \<Rightarrow>
          if k = Some 0 then
            (case onContextDone c st of (c', st') \<Rightarrow> (Some ContextDone, m, ctx, c', st'))
          else
            (case handler (st (raw c)) of
               (e, m', s') \<Rightarrow>
                 (e, m', Context (map_option (\<lambda>n. n - 1) k), c, st(raw c := s'))))"

text \<open>
  \<open>WriteMessage\<close> and \<open>ReadMessage\<close> take the \<open>Write\<close> or \<open>Read\<close> method of the
  message, applied to the message.
\<close>

definition Conn_WriteMessage ::
  "go_context \<Rightarrow> Conn \<Rightarrow> store \<Rightarrow> (sock \<Rightarrow> error option \<times> sock) \<Rightarrow>
   error option \<times> go_context \<times> Conn \<times> store" where
  "Conn_WriteMessage ctx c st write =
     (case processMessage ctx c st () (\<lambda>s. case write s of (e, s') \<Rightarrow> (e, (), s')) of
        (e, u, ctx', c', st') \<Rightarrow> (e, ctx', c', st'))"

definition Conn_ReadMessage ::
  "go_context \<Rightarrow> Conn \<Rightarrow> store \<Rightarrow> 'm \<Rightarrow> ('m \<Rightarrow> sock \<Rightarrow> error option \<times> 'm \<times> sock) \<Rightarrow>
   error option \<times> 'm \<times> go_context \<times> Conn \<times> store" where
  "Conn_ReadMessage ctx c st m read = processMessage ctx c st m (read m)"

section \<open>Negotiation and authentication, server side\<close>

fun isMethodSupported :: "authMethod \<Rightarrow> authMethod list \<Rightarrow> bool" where
  "isMethodSupported method [] = False"
| "isMethodSupported method (m # ms) = (if m = method then True else isMethodSupported method ms)"

text \<open>
  \<open>negotiator.Reply\<close>.  The message of its error also names the method; the name is
  left out here.
\<close>

definition negotiator_Reply ::
  "go_context \<Rightarrow> Conn \<Rightarrow> store \<Rightarrow> authMethod \<Rightarrow> error option \<times> go_context \<times> Conn \<times> store" where
  "negotiator_Reply ctx c st method =
     (case Conn_ReadMessage ctx c st \<lparr>Methods = []\<rparr> (NegotiationRequest_Read sock_Read) of
        (Some e, rq, ctx1, c1, st1) \<Rightarrow> (Some e, ctx1, c1, st1)
      | (None, rq, ctx1, c1, st1) \<Rightarrow>
          if \<not> isMethodSupported method (Methods rq) then
            (case Conn_WriteMessage ctx1 c1 st1
                    (NegotiationReply_Write sock_Write \<lparr>Method = MethodNoAcceptable\<rparr>) of
               (e, ctx2, c2, st2) \<Rightarrow>
                 (Some (ErrNew ErrProtocol
                    ''authentication method is not supported by the client''), ctx2, c2, st2))
          else
            Conn_WriteMessage ctx1 c1 st1 (NegotiationReply_Write sock_Write \<lparr>Method = method\<rparr>))"

record PassAuth =
  user :: "byte list"
  pass :: "byte list"

definition NewPassAuth :: "string \<Rightarrow> string \<Rightarrow> PassAuth" where
  "NewPassAuth u p = \<lparr>user = bytes_of_string u, pass = bytes_of_string p\<rparr>"

definition PassAuth_validCredentials :: "PassAuth \<Rightarrow> byte list \<Rightarrow> byte list \<Rightarrow> bool" where
  "PassAuth_validCredentials a un pw = (user a = un \<and> pass a = pw)"

definition PassAuth_Reply ::
  "PassAuth \<Rightarrow> go_context \<Rightarrow> Conn \<Rightarrow> store \<Rightarrow> error option \<times> go_context \<times> Conn \<times> store" where
  "PassAuth_Reply a ctx c st =
     (case Conn_ReadMessage ctx c st \<lparr>uname = [], passwd = []\<rparr> (PassRequest_Read sock_Read) of
        (Some e, rq, ctx1, c1, st1) \<Rightarrow> (Some e, ctx1, c1, st1)
      | (None, rq, ctx1, c1, st1) \<Rightarrow>
          (case (if \<not> PassAuth_validCredentials a (user a) (pass a)
                 then Conn_WriteMessage ctx1 c1 st1
                        (PassReply_Write sock_Write \<lparr>Status = statusFailure\<rparr>)
                 else (None, ctx1, c1, st1)) of
             (e, ctx2, c2, st2) \<Rightarrow>
               Conn_WriteMessage ctx2 c2 st2 (PassReply_Write sock_Write \<lparr>Status = statusOK\<rparr>)))"

datatype Auth = NoAuth | PasswordAuth PassAuth

definition Auth_Method :: "Auth \<Rightarrow> authMethod" where
  "Auth_Method a = (case a of NoAuth \<Rightarrow> MethodNotRequired | PasswordAuth p \<Rightarrow> MethodPassword)"

definition Auth_Reply ::
  "Auth \<Rightarrow> go_context \<Rightarrow> Conn \<Rightarrow> store \<Rightarrow> error option \<times> go_context \<times> Conn \<times> store" where
  "Auth_Reply a ctx c st =
     (case a of NoAuth \<Rightarrow> (None, ctx, c, st) | PasswordAuth p \<Rightarrow> PassAuth_Reply p ctx c st)"

section \<open>The server\<close>

text \<open>
  What the network answers is given by an environment: the result of a dial (the new
  socket and its local address, as network and string), of binding a listener or a
  packet socket (the socket and its local address), of an accept (the new socket and
  its remote address), and the successive values of \<open>rand.Intn(63035)\<close>.
\<close>

type_synonym netaddr = "string \<times> string"

record env =
  dial :: "string \<Rightarrow> string \<Rightarrow> error + nat \<times> netaddr"
  listen :: "string \<Rightarrow> string \<Rightarrow> error + nat \<times> netaddr"
  accept :: "nat \<Rightarrow> error + nat \<times> netaddr"
  rand_Intn :: "nat \<Rightarrow> nat"

record Server =
  SAuth :: Auth
  Timeout :: nat
  UDPBuffer :: nat
  sctx :: go_context

datatype conn = TcpConn Conn nat Request | UdpConn udpConn

definition ParseNetAddr :: "netaddr \<Rightarrow> Addr option" where
  "ParseNetAddr addr = ParseAddr (fst addr) (snd addr)"

definition timeoutEnabled :: "Server \<Rightarrow> bool" where
  "timeoutEnabled srv = (Timeout srv \<noteq> 0)"

definition Itoa :: "nat \<Rightarrow> string" where
  "Itoa n = FormatUint n"

text \<open>\<open>randomAddress\<close>, with the value that \<open>rand.Intn\<close> gives.\<close>

definition randomAddress :: "nat \<Rightarrow> string" where
  "randomAddress r = JoinHostPort '''' (Itoa (r + 2500))"

definition extractPort :: "string \<Rightarrow> string" where
  "extractPort addr = (case SplitHostPort addr of None \<Rightarrow> '''' | Some (h, p) \<Rightarrow> p)"

definition makeListener :: "env \<Rightarrow> string \<Rightarrow> string \<Rightarrow> error + nat \<times> netaddr" where
  "makeListener ev netw addr =
     (if netw = ''tcp'' then listen ev netw addr
      else if netw = ''udp'' then listen ev netw addr
      else Inl (NetError ''unknown network''))"

text \<open>\<open>Server.listen\<close>; \<open>k\<close> counts the calls of \<open>rand.Intn\<close>.\<close>

definition Server_listen ::
  "env \<Rightarrow> nat \<Rightarrow> string \<Rightarrow> string \<Rightarrow> bool \<Rightarrow> (error + nat \<times> netaddr) \<times> nat" where
  "Server_listen ev k netw addr tryRandomPort =
     (case makeListener ev netw addr of
        Inr l \<Rightarrow> (Inr l, k)
      | Inl e \<Rightarrow>
          if tryRandomPort then
            (case makeListener ev netw (randomAddress (rand_Intn ev k)) of
               Inr l \<Rightarrow> (Inr l, k + 1)
             | Inl e' \<Rightarrow> (Inl e', k + 1))
          else (Inl e, k))"

definition sendFailReply :: "go_context \<Rightarrow> Conn \<Rightarrow> store \<Rightarrow> repType \<Rightarrow> go_context \<times> Conn \<times> store" where
  "sendFailReply ctx c st r =
     (case Conn_WriteMessage ctx c st (Reply_Write sock_Write False \<lparr>Rep = r, Bnd = Some NilAddr\<rparr>) of
        (e, ctx', c', st') \<Rightarrow> (ctx', c', st'))"

definition makeErrorContext :: "Conn \<Rightarrow> Request \<Rightarrow> repType \<Rightarrow> repType" where
  "makeErrorContext c rq code = code"

text \<open>
  The handlers return the connection made (\<open>None\<close> is nil), the error, and the new
  states of the context, the client connection and the sockets.
\<close>

type_synonym handled = "conn option \<times> error option \<times> go_context \<times> Conn \<times> store"

definition handleCONNECT ::
  "env \<Rightarrow> go_context \<Rightarrow> Conn \<Rightarrow> Request \<Rightarrow> store \<Rightarrow> handled" where
  "handleCONNECT ev ctx c rq st =
     (case Dst rq of
        None \<Rightarrow> (None, Some NilPointer, ctx, c, st)
      | Some d \<Rightarrow>
          (case dial ev ''tcp'' (Addr_String d) of
             Inl e \<Rightarrow>
               (None,
                SOCKSError (makeErrorContext c rq RepHostUnreachable)
                  (ErrorContext (makeErrorContext c rq RepHostUnreachable)),
                ctx, c, st)
           | Inr (server, la) \<Rightarrow>
               (case Conn_WriteMessage ctx c st
                       (Reply_Write sock_Write False
                          \<lparr>Rep = RepSucceeded, Bnd = ParseNetAddr la\<rparr>) of
                  (Some e, ctx', c', st') \<Rightarrow> (None, Some e, ctx', c', st')
                | (None, ctx', c', st') \<Rightarrow> (Some (TcpConn c' server rq), None, ctx', c', st'))))"

text \<open>In \<open>handleBIND\<close> the listener is closed when the function returns.\<close>

definition handleBIND ::
  "env \<Rightarrow> nat \<Rightarrow> go_context \<Rightarrow> Conn \<Rightarrow> Request \<Rightarrow> store \<Rightarrow> handled" where
  "handleBIND ev k ctx c rq st =
     (case Dst rq of
        None \<Rightarrow> (None, Some NilPointer, ctx, c, st)
      | Some d \<Rightarrow>
          (case fst (Server_listen ev k ''tcp'' (extractPort (Addr_String d)) True) of
             Inl e \<Rightarrow>
               (None,
                SOCKSError (makeErrorContext c rq RepServerFailure)
                  (ErrorContext (makeErrorContext c rq RepServerFailure)),
                ctx, c, st)
           | Inr (listener, la) \<Rightarrow>
               (case Conn_WriteMessage ctx c st
                       (Reply_Write sock_Write False
                          \<lparr>Rep = RepSucceeded, Bnd = ParseNetAddr la\<rparr>) of
                  (Some e, ctx1, c1, st1) \<Rightarrow>
                    (None, Some e, ctx1, c1, snd (net_Close listener st1))
                | (None, ctx1, c1, st1) \<Rightarrow>
                    (case accept ev listener of
                       Inl e \<Rightarrow>
                         (None,
                          SOCKSError (makeErrorContext c1 rq RepServerFailure)
                            (ErrorContext (makeErrorContext c1 rq RepServerFailure)),
                          ctx1, c1, snd (net_Close listener st1))
                     | Inr (server, ra) \<Rightarrow>
                         (case Conn_WriteMessage ctx1 c1 st1
                                 (Reply_Write sock_Write False
                                    \<lparr>Rep = RepSucceeded, Bnd = ParseNetAddr ra\<rparr>) of
                            (e, ctx2, c2, st2) \<Rightarrow>
                              (Some (TcpConn c2 server rq), e, ctx2, c2,
                               snd (net_Close listener st2)))))))"

definition maxUDPHeaderLength :: nat where
  "maxUDPHeaderLength = 65535"

definition NewUDPConnSize :: "nat \<Rightarrow> nat \<Rightarrow> nat \<Rightarrow> UDPConn" where
  "NewUDPConnSize ctl dat buffer =
     \<lparr>control = ctl, data = dat,
      income_buf = (if buffer = 0 then maxUDPHeaderLength else buffer), UDst = None\<rparr>"

definition handleUDP ::
  "Server \<Rightarrow> env \<Rightarrow> nat \<Rightarrow> go_context \<Rightarrow> Conn \<Rightarrow> Request \<Rightarrow> store \<Rightarrow> handled" where
  "handleUDP srv ev k ctx c rq st =
     (case Dst rq of
        None \<Rightarrow> (None, Some NilPointer, ctx, c, st)
      | Some d \<Rightarrow>
          (case Server_listen ev k ''udp'' (Addr_String d) True of
             (Inl e, k1) \<Rightarrow>
               (None,
                SOCKSError (makeErrorContext c rq RepServerFailure)
                  (ErrorContext (makeErrorContext c rq RepServerFailure)),
                ctx, c, st)
           | (Inr (outc, la), k1) \<Rightarrow>
               (case fst (Server_listen ev (k1 + 1) ''udp'' (randomAddress (rand_Intn ev k1)) False) of
                  Inl e \<Rightarrow>
                    (None,
                     SOCKSError (makeErrorContext c rq RepServerFailure)
                       (ErrorContext (makeErrorContext c rq RepServerFailure)),
                     ctx, c, st)
                | Inr (inc, la') \<Rightarrow>
                    (case Conn_WriteMessage ctx c st
                            (Reply_Write sock_Write False
                               \<lparr>Rep = RepSucceeded, Bnd = ParseNetAddr la\<rparr>) of
                       (Some e, ctx', c', st') \<Rightarrow> (None, Some e, ctx', c', st')
                     | (None, ctx', c', st') \<Rightarrow>
                         (Some (UdpConn
                            \<lparr>Buffer = UDPBuffer srv, client = c',
                             outcome = NewUDPConnSize (Conn_Raw c') outc (UDPBuffer srv),
                             income = inc, req = rq\<rparr>),
                          None, ctx', c', st')))))"

text \<open>
  \<open>Server.handle\<close>.  The context of the request is the background context, or \<open>tctx\<close>,
  the one made with the timeout of the server when it has one.
\<close>

definition Server_handle ::
  "Server \<Rightarrow> env \<Rightarrow> go_context \<Rightarrow> Conn \<Rightarrow> store \<Rightarrow> conn option \<times> error option \<times> Conn \<times> store" where
  "Server_handle srv ev tctx c st =
     (case Conn_ReadMessage (if timeoutEnabled srv then tctx else Context None) c st
             \<lparr>Cmd = 0, Dst = None\<rparr> (Request_Read sock_Read) of
        (Some e, rq, ctx1, c1, st1) \<Rightarrow> (None, Some e, c1, st1)
      | (None, rq, ctx1, c1, st1) \<Rightarrow>
          (case (if Cmd rq = CmdConnect then handleCONNECT ev ctx1 c1 rq st1
                 else if Cmd rq = CmdBind then handleBIND ev 0 ctx1 c1 rq st1
                 else if Cmd rq = CmdUDP then handleUDP srv ev 0 ctx1 c1 rq st1
                 else (None, None, ctx1, c1, st1)) of
             (cn, Some (SOCKSErr code cause), ctx2, c2, st2) \<Rightarrow>
               (case sendFailReply ctx2 c2 st2 code of
                  (ctx3, c3, st3) \<Rightarrow>
                    (case Conn_Close c3 st3 of
                       (e, c4, st4) \<Rightarrow> (cn, Some (SOCKSErr code cause), c4, st4)))
           | (cn, e, ctx2, c2, st2) \<Rightarrow> (cn, e, c2, st2)))"

definition Server_auth ::
  "Server \<Rightarrow> Conn \<Rightarrow> store \<Rightarrow> error option \<times> Conn \<times> store" where
  "Server_auth srv c st =
     (case negotiator_Reply (sctx srv) c st (Auth_Method (SAuth srv)) of
        (Some e, ctx1, c1, st1) \<Rightarrow> (Some e, c1, st1)
      | (None, ctx1, c1, st1) \<Rightarrow>
          (case Auth_Reply (SAuth srv) ctx1 c1 st1 of
             (Some e, ctx2, c2, st2) \<Rightarrow> (Some e, c2, st2)
           | (None, ctx2, c2, st2) \<Rightarrow> (None, c2, st2)))"

definition tcpConn_Close :: "Conn \<Rightarrow> nat \<Rightarrow> store \<Rightarrow> store" where
  "tcpConn_Close c server st =
     (case Conn_Close c st of (e, c', st') \<Rightarrow> snd (net_Close server st'))"

definition conn_Close :: "conn \<Rightarrow> store \<Rightarrow> store" where
  "conn_Close cn st =
     (case cn of
        TcpConn c server rq \<Rightarrow> tcpConn_Close c server st
      | UdpConn u \<Rightarrow> udpConn_Close u st)"

text \<open>
  \<open>Server.serve\<close>, for the accepted socket \<open>s\<close>.  \<open>Transfer\<close> copies between the
  sockets in two goroutines until one of them ends; what it does to the sockets is the
  parameter \<open>transfer\<close>.  A failed step is logged and \<open>serve\<close> returns.  A nil \<open>conn\<close>
  with a nil error is dereferenced.  The result is the error that ended the session,
  if any, and the sockets.
\<close>

definition Server_serve ::
  "Server \<Rightarrow> env \<Rightarrow> go_context \<Rightarrow> (conn \<Rightarrow> store \<Rightarrow> store) \<Rightarrow> nat \<Rightarrow> store \<Rightarrow>
   error option \<times> store" where
  "Server_serve srv ev tctx transfer s st =
     (case Server_auth srv (NewConn s) st of
        (Some e, c1, st1) \<Rightarrow> (Some e, st1)
      | (None, c1, st1) \<Rightarrow>
          (case Server_handle srv ev tctx c1 st1 of
             (cn, Some e, c2, st2) \<Rightarrow> (Some e, st2)
           | (None, None, c2, st2) \<Rightarrow> (Some NilPointer, st2)
           | (Some cn, None, c2, st2) \<Rightarrow> (None, conn_Close cn (transfer cn st2))))"

section \<open>The wire format of the specification\<close>

text \<open>
  The address on the wire as the specification describes it: \<open>ATYP\<close>, then the payload
  (for DOMAIN one length byte and the bytes of the host name; for IPv4 and IPv6 the 4
  or 16 bytes of the address that the host string denotes), then the port, big-endian.
\<close>

definition wire_Addr :: "Addr \<Rightarrow> byte list" where
  "wire_Addr a =
     Atyp a #
     (if Atyp a = AddrDomain then of_nat (length (Host a)) # bytes_of_string (Host a)
      else (case ParseIP (Host a) of None \<Rightarrow> [] | Some ip \<Rightarrow> ipBytes ip)) @
     port_bytes (Port a)"

text \<open>
  A valid address: the type is one of the three; a domain name has at most 255 bytes;
  an IP host denotes an address of the family of its type and is the canonical text of
  that address, the one that formatting the address gives.
\<close>

definition valid_Addr :: "Addr \<Rightarrow> bool" where
  "valid_Addr a =
     (if Atyp a = AddrDomain then length (Host a) \<le> 255
      else (Atyp a = AddrIPV4 \<or> Atyp a = AddrIPv6) \<and>
           (case ParseIP (Host a) of
              None \<Rightarrow> False
            | Some ip \<Rightarrow>
                length (ipBytes ip) = ipLength (Atyp a) \<and> IP_String (ipBytes ip) = Host a))"



definition received :: "byte list \<Rightarrow> sock" where
  "received bs = \<lparr>rx = bs, tx = [], closed = False\<rparr>"


section \<open>Properties of ErrReader\<close>

lemma ErrReader_Read_sticky:
  "err r = Some e \<Longrightarrow> ErrReader_Read f n r = ([], Some e, r)"
  by (simp add: ErrReader_Read_def)

lemma ErrReader_Read_records:
  "ErrReader_Read f n r = (bs, e, r') \<Longrightarrow> err r = None \<Longrightarrow> err r' = e"
  by (auto simp: ErrReader_Read_def split: prod.splits)

lemma ErrReader_Read_error_recorded:
  assumes "ErrReader_Read f n r = (bs, Some e, r')"
  shows "err r' = Some e"
proof (cases "err r")
  case None
  with assms show ?thesis by (simp add: ErrReader_Read_records)
next
  case (Some e0)
  with assms show ?thesis by (simp add: ErrReader_Read_def)
qed

lemma ErrReader_Reads_sticky:
  "err r = Some e \<Longrightarrow>
   ErrReader_Reads f ns r = (map (\<lambda>_. ([], Some e)) ns, r)"
  by (induction ns) (simp_all add: ErrReader_Read_sticky)

text \<open>
  C10.  Once a read of an ErrReader has returned an error \<open>e\<close>, every later read, of any
  size and whatever the underlying reader would do, returns no bytes and \<open>e\<close> and leaves
  the ErrReader and the reader below it untouched; and \<open>Wrap\<close> is nil exactly when no
  error has been recorded.
\<close>

theorem ErrReader_error_is_sticky:
  "(ErrReader_Read f n r = (bs, Some e, r') \<longrightarrow>
      err r' = Some e \<and>
      (\<forall>g m. ErrReader_Read g m r' = ([], Some e, r')) \<and>
      (\<forall>g ms. ErrReader_Reads g ms r' = (map (\<lambda>_. ([], Some e)) ms, r'))) \<and>
   ((ErrReader_Wrap t msg r = None) = (ErrReader_Error r = None))"
proof (intro conjI impI allI)
  assume a: "ErrReader_Read f n r = (bs, Some e, r')"
  then show e: "err r' = Some e" by (rule ErrReader_Read_error_recorded)
  show "\<And>g m. ErrReader_Read g m r' = ([], Some e, r')"
    using e by (rule ErrReader_Read_sticky)
  show "\<And>g ms. ErrReader_Reads g ms r' = (map (\<lambda>_. ([], Some e)) ms, r')"
    using e by (rule ErrReader_Reads_sticky)
next
  show "(ErrReader_Wrap t msg r = None) = (ErrReader_Error r = None)"
    by (simp add: ErrReader_Wrap_def ErrReader_Error_def split: option.splits)
qed

theorem ErrReader_error_is_sticky_witness:
  "ErrReader_Read bytes_Read 2 (NewReader []) = ([], Some EOF, \<lparr>err = Some EOF, rd = []\<rparr>) \<and>
   ErrReader_Read bytes_Read 1 \<lparr>err = Some EOF, rd = [] :: byte list\<rparr> =
     ([], Some EOF, \<lparr>err = Some EOF, rd = []\<rparr>) \<and>
   ErrReader_Wrap ErrProtocol ''x'' (NewReader ([] :: byte list)) = None"
  using ErrReader_error_is_sticky [of bytes_Read 2 "NewReader []" "[]" EOF
      "\<lparr>err = Some EOF, rd = []\<rparr>" ErrProtocol "''x''"]
  by (simp add: ErrReader_Read_def NewReader_def bytes_Read_def ErrReader_Error_def)

section \<open>Properties of Conn.Close\<close>

lemma net_Close_closed: "closed (snd (net_Close i st) i)"
  by (simp add: net_Close_def sock_Close_def split: prod.splits)

lemma net_Close_again:
  "closed (st i) \<Longrightarrow> net_Close i st = (Some ErrClosed, st)"
  by (simp add: net_Close_def sock_Close_def)

lemma net_Close_other: "j \<noteq> i \<Longrightarrow> snd (net_Close i st) j = st j"
  by (simp add: net_Close_def split: prod.splits)


lemma Conn_Close_result:
  "Conn_Close c st = (fst (net_Close (raw c) st), c\<lparr>alive := False\<rparr>, snd (net_Close (raw c) st))"
  by (simp add: Conn_Close_def split: prod.splits)

lemma alive_trace_dead:
  "\<not> alive c \<Longrightarrow> alive_trace n c st = replicate (Suc n) False"
  by (induction n arbitrary: c st) (simp_all add: Conn_Alive_def Conn_Close_result)

lemma falls_replicate_False: "falls (replicate n False) = 0"
proof (induction n)
  case 0
  show ?case by simp
next
  case (Suc n)
  then show ?case by (cases n) simp_all
qed

text \<open>
  C8.  The first \<open>Close\<close> of a connection clears the alive bit, and a second \<open>Close\<close>
  changes neither the connection nor any socket (it only reports that the socket is
  closed already); so over any number of closes of a new connection the bit is true
  before the first and false after it and ever after, falling exactly once.
\<close>

theorem Conn_Close_alive_once:
  "(case Conn_Close c st of
      (e, c', st') \<Rightarrow>
        \<not> Conn_Alive c' \<and> closed (st' (raw c')) \<and>
        Conn_Close c' st' = (Some ErrClosed, c', st')) \<and>
   alive_trace (Suc n) (NewConn r) st = True # replicate (Suc n) False \<and>
   falls (alive_trace (Suc n) (NewConn r) st) = 1"
proof -
  have tr: "alive_trace (Suc n) (NewConn r) st = True # replicate (Suc n) False"
    by (simp add: Conn_Alive_def Conn_Close_result alive_trace_dead) (simp add: NewConn_def)
  have "falls (True # replicate (Suc n) False) = 1"
    using falls_replicate_False [of "Suc n"] by simp
  with tr have fl: "falls (alive_trace (Suc n) (NewConn r) st) = 1"
    by simp
  have "closed (snd (net_Close (raw c) st) (raw c))"
    by (rule net_Close_closed)
  then have "net_Close (raw c) (snd (net_Close (raw c) st)) =
      (Some ErrClosed, snd (net_Close (raw c) st))"
    by (rule net_Close_again)
  then have "case Conn_Close c st of
      (e, c', st') \<Rightarrow>
        \<not> Conn_Alive c' \<and> closed (st' (raw c')) \<and>
        Conn_Close c' st' = (Some ErrClosed, c', st')"
    by (simp add: Conn_Close_result Conn_Alive_def net_Close_closed)
  with tr fl show ?thesis by blast
qed

section \<open>Properties of closing a UDP association\<close>





section \<open>Evaluation of the library functions\<close>

lemma list_update_Cons_numeral:
  "(x # xs)[numeral v := y] = x # xs[pred_numeral v := y]"
  by (simp add: numeral_eq_Suc)

lemma clearRange_numeral:
  "clearRange lo (numeral k) ip = clearRange (Suc lo) (pred_numeral k) (ip[lo := 0])"
  by (simp add: numeral_eq_Suc)

lemma shiftRight_numeral:
  "shiftRight (numeral k) lo n ip =
     (if numeral k \<le> lo then ip
      else shiftRight (pred_numeral k) lo n (ip[pred_numeral k + n := ip ! pred_numeral k]))"
  by (simp add: numeral_eq_Suc)

lemmas ip_eval = ParseIP_def parseIPv6_def splitZone_def parseIPv4Fields_def isDigit_def
  digitVal_def hexVal_def IPv4_def Let_def zero16_def list_update_Cons_numeral
  clearRange_numeral shiftRight_numeral To4_def To16_def

lemma unat_byte_less: "unat (x :: byte) < 256"
  using unsigned_less [of x, where 'a = nat] by simp

lemma unat_byte_mod: "unat (x :: byte) mod 256 = unat x"
  using unat_byte_less [of x] by simp

lemma bytes_of_string_of_bytes: "bytes_of_string (string_of_bytes s) = s"
  by (induction s) (simp_all add: string_of_bytes_def bytes_of_string_def unat_byte_mod)

lemma string_of_bytes_of_string: "string_of_bytes (bytes_of_string s) = s"
  by (induction s) (simp_all add: string_of_bytes_def bytes_of_string_def unat_of_nat)




declare bufio_Write_loop.simps [simp del] bufio_WriteString_loop.simps [simp del]

lemma bufio_Write_loop_fits:
  "length p \<le> bufio_Available w \<Longrightarrow> bufio_Write_loop uw p w = (p, w)"
  by (subst bufio_Write_loop.simps) simp

lemma bufio_WriteString_loop_fits:
  "length s \<le> bufio_Available w \<Longrightarrow> bufio_WriteString_loop uw sw s w = (s, w)"
  by (subst bufio_WriteString_loop.simps) simp

lemma bufio_Write_fits:
  "berr w = None \<Longrightarrow> length (bbuf w) + length p \<le> bsize w \<Longrightarrow>
   bufio_Write uw p w = (None, w\<lparr>bbuf := bbuf w @ p\<rparr>)"
  by (simp add: bufio_Write_def bufio_Write_loop_fits bufio_Available_def)

lemma bufio_WriteByte_fits:
  "berr w = None \<Longrightarrow> length (bbuf w) < bsize w \<Longrightarrow>
   bufio_WriteByte uw c w = (None, w\<lparr>bbuf := bbuf w @ [c]\<rparr>)"
  by (simp add: bufio_WriteByte_def bufio_Available_def)

lemma bytes_of_string_length [simp]: "length (bytes_of_string s) = length s"
  by (simp add: bytes_of_string_def)

lemma bufio_WriteString_fits:
  "berr w = None \<Longrightarrow> length (bbuf w) + length s \<le> bsize w \<Longrightarrow>
   bufio_WriteString uw sw s w = (None, w\<lparr>bbuf := bbuf w @ bytes_of_string s\<rparr>)"
  by (simp add: bufio_WriteString_def bufio_WriteString_loop_fits bufio_Available_def)

lemma bufio_Flush_sock:
  "berr w = None \<Longrightarrow> bbuf w \<noteq> [] \<Longrightarrow> \<not> closed (bwr w) \<Longrightarrow>
   bufio_Flush sock_Write w = (None, w\<lparr>bbuf := [], bwr := (bwr w)\<lparr>tx := tx (bwr w) @ [bbuf w]\<rparr>\<rparr>)"
  by (simp add: bufio_Flush_def sock_Write_def)

lemma port_bytes_length [simp]: "length (port_bytes p) = 2"
  by (simp add: port_bytes_def)


section \<open>Addr.Write on a domain name\<close>

lemma Addr_Write_to_domain:
  assumes "Atyp a = AddrDomain" "berr w = None" "length (bbuf w) + Addr_Len a \<le> bsize w"
  shows "Addr_Write_to uw sw a w =
    (None, w\<lparr>bbuf := bbuf w @ [AddrDomain, of_nat (length (Host a))] @
                bytes_of_string (Host a) @ port_bytes (Port a)\<rparr>)"
  using assms
  by (simp add: Addr_Write_to_def Addr_Write_port_def Addr_Len_def bufio_Write_fits
      bufio_WriteByte_fits bufio_WriteString_fits AddrDomain_def AddrIPV4_def AddrIPv6_def)

text \<open>
  C4, as the specification states it, fails: for a host of 256 bytes \<open>Addr.Write\<close>
  returns no error; it writes the length byte 0 and all 256 bytes of the host.
\<close>

theorem Addr_Write_long_domain_counterexample:
  "length (Host \<lparr>network = ''tcp'', Atyp = AddrDomain, Host = replicate 256 (CHR ''a''),
      Port = 80\<rparr>) > 255 \<and>
   Addr_Write sock_Write False
     \<lparr>network = ''tcp'', Atyp = AddrDomain, Host = replicate 256 (CHR ''a''), Port = 80\<rparr>
     (Bufio (NewWriter_over 260 \<lparr>rx = [], tx = [], closed = False\<rparr>)) =
   (None, Bufio \<lparr>bsize = 260, bbuf = [3, 0] @ replicate 256 97 @ [0, 80], berr = None,
                 bwr = \<lparr>rx = [], tx = [], closed = False\<rparr>\<rparr>)"
  by (simp add: Addr_Write_def Addr_Write_bufio_def Addr_Len_def Addr_Write_to_domain
      NewWriter_over_def bytes_of_string_def port_bytes_def AddrDomain_def)

text \<open>
  C4, amended.  \<open>Addr.Write\<close> on a DOMAIN address never fails, whatever the length of
  the host: into a \<open>bufio.Writer\<close> that has room for \<open>a.Len()\<close> bytes, as the one of
  its callers has, it puts the address type, one length byte equal to the length of
  the host modulo 256, the bytes of the host unchanged and the port.  The length byte
  is the length of the host when that is at most 255.
\<close>

theorem Addr_Write_domain:
  assumes "Atyp a = AddrDomain" and "berr w = None"
    and "length (bbuf w) + Addr_Len a \<le> bsize w"
  shows "Addr_Write uw sw a (Bufio w) =
      (None, Bufio (w\<lparr>bbuf := bbuf w @ [AddrDomain, of_nat (length (Host a))] @
                       bytes_of_string (Host a) @ port_bytes (Port a)\<rparr>)) \<and>
    unat (of_nat (length (Host a)) :: byte) = length (Host a) mod 256 \<and>
    (length (Host a) \<le> 255 \<longrightarrow> unat (of_nat (length (Host a)) :: byte) = length (Host a)) \<and>
    string_of_bytes (bytes_of_string (Host a)) = Host a"
proof -
  have "Addr_Len a \<le> bsize w"
    using assms(3) by simp
  then have "Addr_Write uw sw a (Bufio w) =
      (None, Bufio (w\<lparr>bbuf := bbuf w @ [AddrDomain, of_nat (length (Host a))] @
                       bytes_of_string (Host a) @ port_bytes (Port a)\<rparr>))"
    using assms by (simp add: Addr_Write_def Addr_Write_bufio_def Addr_Write_to_domain)
  moreover have "unat (of_nat (length (Host a)) :: byte) = length (Host a) mod 256"
    by (simp add: unat_of_nat)
  ultimately show ?thesis
    by (simp add: string_of_bytes_of_string)
qed

theorem Addr_Write_domain_witness:
  "Addr_Write sock_Write False
     \<lparr>network = ''tcp'', Atyp = AddrDomain, Host = ''ab'', Port = 80\<rparr>
     (Bufio \<lparr>bsize = 9, bbuf = [5, 1, 0], berr = None,
             bwr = \<lparr>rx = [], tx = [], closed = False\<rparr>\<rparr>) =
   (None, Bufio \<lparr>bsize = 9, bbuf = [5, 1, 0, 3, 2, 97, 98, 0, 80], berr = None,
                 bwr = \<lparr>rx = [], tx = [], closed = False\<rparr>\<rparr>)"
  using Addr_Write_domain [of "\<lparr>network = ''tcp'', Atyp = AddrDomain, Host = ''ab'', Port = 80\<rparr>"
      "\<lparr>bsize = 9, bbuf = [5, 1, 0], berr = None, bwr = \<lparr>rx = [], tx = [], closed = False\<rparr>\<rparr>"
      sock_Write False]
  by (simp add: Addr_Len_def bytes_of_string_def port_bytes_def AddrDomain_def)

section \<open>Sessions on given inputs\<close>

lemmas read_eval = Conn_ReadMessage_def Conn_WriteMessage_def processMessage_def
  ErrReader_Read_def ErrReader_Wrap_def ErrReader_Error_def NewReader_def sock_Read_def
  sock_Write_def fill_def

text \<open>
  C1.  The server holds the credentials (u, p) and the client sends (u, x): the only
  reply that \<open>PassAuth.Reply\<close> sends is the success reply 01 00, and it returns no
  error.
\<close>

theorem PassAuth_Reply_wrong_password:
  "PassAuth_Reply (NewPassAuth ''u'' ''p'') (Context None) (NewConn 0)
     (idle(0 := \<lparr>rx = [1, 1, 117, 1, 120], tx = [], closed = False\<rparr>)) =
   (None, Context None, NewConn 0, idle(0 := \<lparr>rx = [], tx = [[1, 0]], closed = False\<rparr>))"
  by (simp add: PassAuth_Reply_def read_eval PassRequest_Read_def PassReply_Write_def
      PassAuth_validCredentials_def NewConn_def subnegotiationVersion_def statusOK_def)

text \<open>
  C2.  The request 05 00 00 01 7f 00 00 01 00 50 has the command byte 0x00, which is
  none of CONNECT, BIND and UDP ASSOCIATE: \<open>Request.Read\<close> accepts it.
\<close>

theorem Request_Read_accepts_command_zero:
  "Request_Read sock_Read \<lparr>Cmd = 0, Dst = None\<rparr>
     \<lparr>rx = [5, 0, 0, 1, 127, 0, 0, 1, 0, 80], tx = [], closed = False\<rparr> =
   (None,
    \<lparr>Cmd = 0,
     Dst = Some \<lparr>network = ''unknown network'', Atyp = AddrIPV4, Host = ''127.0.0.1'', Port = 80\<rparr>\<rparr>,
    \<lparr>rx = [], tx = [], closed = False\<rparr>)"
  by (simp add: Request_Read_def read_eval Addr_Read_def Addr_Read_port_def isSOCKS5_def
      Version_def cmdType_Valid_def cmdType_Network_def CmdConnect_def CmdBind_def CmdUDP_def
      AddrIPV4_def AddrIPv6_def AddrDomain_def ipLength_def new_Addr_def IP_String_def To4_def
      appendTo4_def appendDecimal_def digitChar_def bytes_port_def)

section \<open>Encoding and decoding\<close>

lemma fill_full: "length g = length buf \<Longrightarrow> fill buf g = g"
  by (simp add: fill_def)


lemma Addr_Write_to_valid:
  assumes "valid_Addr a" "berr w = None" "length (bbuf w) + Addr_Len a \<le> bsize w"
  shows "Addr_Write_to uw sw a w = (None, w\<lparr>bbuf := bbuf w @ wire_Addr a\<rparr>)"
proof (cases "Atyp a = AddrDomain")
  case True
  with assms show ?thesis
    by (simp add: Addr_Write_to_domain wire_Addr_def)
next
  case False
  with assms(1) obtain ip where ip: "ParseIP (Host a) = Some ip"
    and len: "length (ipBytes ip) = ipLength (Atyp a)"
    and ty: "Atyp a = AddrIPV4 \<or> Atyp a = AddrIPv6"
    by (auto simp: valid_Addr_def split: option.splits)
  have room: "length (bbuf w) + (1 + ipLength (Atyp a) + 2) \<le> bsize w"
    using assms(3) False by (simp add: Addr_Len_def)
  show ?thesis
    using False ty ip len room assms(2)
    by (simp add: Addr_Write_to_def Addr_Write_port_def wire_Addr_def bufio_Write_fits
        bufio_WriteByte_fits)
qed








lemma Reply_Write_wire:
  assumes "valid_Addr d" "Bnd r = Some d" "\<not> closed u"
  shows "Reply_Write sock_Write sw r u =
    (None, u\<lparr>tx := tx u @ [Version # Rep r # 0 # wire_Addr d]\<rparr>)"
proof -
  let ?w = "\<lparr>bsize = 3 + Addr_Len d, bbuf = [Version, Rep r, 0], berr = None, bwr = u\<rparr>"
  have a: "bufio_Write sock_Write [Version, Rep r, 0] (NewWriter_over (3 + Addr_Len d) u) = (None, ?w)"
    by (simp add: bufio_Write_fits NewWriter_over_def)
  have b: "Addr_Write_bufio sock_Write sw d ?w = (None, ?w\<lparr>bbuf := bbuf ?w @ wire_Addr d\<rparr>)"
    using assms(1) by (simp add: Addr_Write_bufio_def Addr_Write_to_valid)
  show ?thesis
    using assms(2,3) by (simp add: Reply_Write_def a b bufio_Flush_sock)
qed

















lemmas text_eval = ip_eval IP_String_def appendTo4_def appendTo6_def appendDecimal_def
  appendHex_def digitChar_def longerRun_def ipBytes_def ipLength_def
  AddrIPV4_def AddrIPv6_def AddrDomain_def


section \<open>What writing leaves unchanged\<close>

lemma bufio_Flush_keeps:
  assumes "\<And>p u. Q (snd (uw p u)) = Q u"
  shows "Q (bwr (snd (bufio_Flush uw b))) = Q (bwr b) \<and> bsize (snd (bufio_Flush uw b)) = bsize b"
proof (cases "berr b = None \<and> bbuf b \<noteq> []")
  case True
  obtain e u' where w: "uw (bbuf b) (bwr b) = (e, u')"
    by (cases "uw (bbuf b) (bwr b)")
  then have "Q u' = Q (bwr b)"
    using assms [of "bbuf b" "bwr b"] by simp
  with True w show ?thesis
    by (cases e) (simp_all add: bufio_Flush_def)
next
  case False
  then show ?thesis
    by (auto simp: bufio_Flush_def split: option.splits)
qed

lemma bufio_Write_loop_keeps:
  assumes "\<And>p u. Q (snd (uw p u)) = Q u"
  shows "Q (bwr (snd (bufio_Write_loop uw p b))) = Q (bwr b) \<and>
    bsize (snd (bufio_Write_loop uw p b)) = bsize b"
  using assms
proof (induction uw p b rule: bufio_Write_loop.induct)
  case (1 uw p b)
  show ?case
  proof (cases "length p > bufio_Available b \<and> berr b = None")
    case False
    then show ?thesis
      by (subst (1 2) bufio_Write_loop.simps) auto
  next
    case go: True
    show ?thesis
    proof (cases "bufio_Buffered b = 0")
      case True
      obtain e u' where w: "uw p (bwr b) = (e, u')"
        by (cases "uw p (bwr b)")
      then have q: "Q u' = Q (bwr b)"
        using "1.prems" [of p "bwr b"] by simp
      show ?thesis
      proof (cases e)
        case None
        from "1.IH"(1) [OF go True w [symmetric] None "1.prems"] go True w None q
        show ?thesis
          by (subst (1 2) bufio_Write_loop.simps) simp
      next
        case (Some x)
        from "1.IH"(2) [OF go True w [symmetric] Some "1.prems"] go True w Some q
        show ?thesis
          by (subst (1 2) bufio_Write_loop.simps) simp
      qed
    next
      case False
      let ?b = "b\<lparr>bbuf := bbuf b @ take (bufio_Available b) p\<rparr>"
      obtain e b' where f: "bufio_Flush uw ?b = (e, b')"
        by (cases "bufio_Flush uw ?b")
      have k: "Q (bwr b') = Q (bwr b) \<and> bsize b' = bsize b"
        using bufio_Flush_keeps [of Q uw ?b, OF "1.prems"] f by simp
      from "1.IH"(3) [OF go False f [symmetric] "1.prems"] go False f k
      show ?thesis
        by (subst (1 2) bufio_Write_loop.simps) simp
    qed
  qed
qed

lemma bufio_WriteString_loop_keeps:
  assumes "\<And>p u. Q (snd (uw p u)) = Q u"
  shows "Q (bwr (snd (bufio_WriteString_loop uw sw p b))) = Q (bwr b) \<and>
    bsize (snd (bufio_WriteString_loop uw sw p b)) = bsize b"
  using assms
proof (induction uw sw p b rule: bufio_WriteString_loop.induct)
  case (1 uw sw p b)
  show ?case
  proof (cases "length p > bufio_Available b \<and> berr b = None \<and> bsize b > 0")
    case False
    then show ?thesis
      by (subst (1 2) bufio_WriteString_loop.simps) auto
  next
    case go: True
    show ?thesis
    proof (cases "bufio_Buffered b = 0 \<and> sw")
      case True
      obtain e u' where w: "uw p (bwr b) = (e, u')"
        by (cases "uw p (bwr b)")
      then have q: "Q u' = Q (bwr b)"
        using "1.prems" [of p "bwr b"] by simp
      show ?thesis
      proof (cases e)
        case None
        from "1.IH"(1) [OF go True w [symmetric] None "1.prems"] go True w None q
        show ?thesis
          by (subst (1 2) bufio_WriteString_loop.simps) simp
      next
        case (Some x)
        from "1.IH"(2) [OF go True w [symmetric] Some "1.prems"] go True w Some q
        show ?thesis
          by (subst (1 2) bufio_WriteString_loop.simps) simp
      qed
    next
      case False
      let ?b = "b\<lparr>bbuf := bbuf b @ take (bufio_Available b) p\<rparr>"
      obtain e b' where f: "bufio_Flush uw ?b = (e, b')"
        by (cases "bufio_Flush uw ?b")
      have k: "Q (bwr b') = Q (bwr b) \<and> bsize b' = bsize b"
        using bufio_Flush_keeps [of Q uw ?b, OF "1.prems"] f by simp
      from "1.IH"(3) [OF go False f [symmetric] "1.prems"] go False f k
      show ?thesis
        by (subst (1 2) bufio_WriteString_loop.simps) auto
    qed
  qed
qed

lemma bufio_Write_keeps:
  assumes "\<And>p u. Q (snd (uw p u)) = Q u"
  shows "Q (bwr (snd (bufio_Write uw p b))) = Q (bwr b) \<and>
    bsize (snd (bufio_Write uw p b)) = bsize b"
  using bufio_Write_loop_keeps [of Q uw p b, OF assms]
  by (auto simp: bufio_Write_def split: prod.splits option.splits)

lemma bufio_WriteString_keeps:
  assumes "\<And>p u. Q (snd (uw p u)) = Q u"
  shows "Q (bwr (snd (bufio_WriteString uw sw s b))) = Q (bwr b) \<and>
    bsize (snd (bufio_WriteString uw sw s b)) = bsize b"
  using bufio_WriteString_loop_keeps [of Q uw sw "bytes_of_string s" b, OF assms]
  by (auto simp: bufio_WriteString_def split: prod.splits option.splits)

lemma bufio_WriteByte_keeps:
  assumes "\<And>p u. Q (snd (uw p u)) = Q u"
  shows "Q (bwr (snd (bufio_WriteByte uw c b))) = Q (bwr b) \<and>
    bsize (snd (bufio_WriteByte uw c b)) = bsize b"
  using bufio_Flush_keeps [of Q uw b, OF assms]
  by (auto simp: bufio_WriteByte_def split: prod.splits option.splits)

lemma Addr_Write_port_keeps:
  assumes "\<And>p u. Q (snd (uw p u)) = Q u"
  shows "Q (bwr (snd (Addr_Write_port uw a w))) = Q (bwr w) \<and>
    bsize (snd (Addr_Write_port uw a w)) = bsize w \<and> fst (Addr_Write_port uw a w) = None"
  using bufio_Write_keeps [of Q uw "port_bytes (Port a)" w, OF assms]
  by (auto simp: Addr_Write_port_def split: prod.splits)

lemma Addr_Write_to_keeps:
  assumes "\<And>p u. Q (snd (uw p u)) = Q u"
  shows "Q (bwr (snd (Addr_Write_to uw sw a w))) = Q (bwr w) \<and>
    bsize (snd (Addr_Write_to uw sw a w)) = bsize w \<and>
    (fst (Addr_Write_to uw sw a w) = None \<or>
     fst (Addr_Write_to uw sw a w) = Some (ErrNew ErrProtocol ''invalid ip address''))"
proof -
  obtain e1 w1 where s1: "bufio_WriteByte uw (Atyp a) w = (e1, w1)"
    by (cases "bufio_WriteByte uw (Atyp a) w")
  have k1: "Q (bwr w1) = Q (bwr w) \<and> bsize w1 = bsize w"
    using bufio_WriteByte_keeps [of Q uw "Atyp a" w, OF assms] s1 by simp
  show ?thesis
  proof (cases "Atyp a = AddrIPV4 \<or> Atyp a = AddrIPv6")
    case True
    show ?thesis
    proof (cases "ParseIP (Host a)")
      case None
      with True s1 k1 show ?thesis
        by (simp add: Addr_Write_to_def)
    next
      case (Some ip)
      obtain e2 w2 where s2: "bufio_Write uw (ipBytes ip) w1 = (e2, w2)"
        by (cases "bufio_Write uw (ipBytes ip) w1")
      have k2: "Q (bwr w2) = Q (bwr w1) \<and> bsize w2 = bsize w1"
        using bufio_Write_keeps [of Q uw "ipBytes ip" w1, OF assms] s2 by simp
      show ?thesis
        using True Some s1 s2 k1 k2 Addr_Write_port_keeps [of Q uw a w2, OF assms]
        by (simp add: Addr_Write_to_def)
    qed
  next
    case ip: False
    show ?thesis
    proof (cases "Atyp a = AddrDomain")
      case True
      obtain e2 w2 where s2: "bufio_WriteByte uw (of_nat (length (Host a))) w1 = (e2, w2)"
        by (cases "bufio_WriteByte uw (of_nat (length (Host a))) w1")
      have k2: "Q (bwr w2) = Q (bwr w1) \<and> bsize w2 = bsize w1"
        using bufio_WriteByte_keeps [of Q uw "of_nat (length (Host a))" w1, OF assms] s2 by simp
      obtain e3 w3 where s3: "bufio_WriteString uw sw (Host a) w2 = (e3, w3)"
        by (cases "bufio_WriteString uw sw (Host a) w2")
      have k3: "Q (bwr w3) = Q (bwr w2) \<and> bsize w3 = bsize w2"
        using bufio_WriteString_keeps [of Q uw sw "Host a" w2, OF assms] s3 by simp
      show ?thesis
        using ip True s1 s2 s3 k1 k2 k3 Addr_Write_port_keeps [of Q uw a w3, OF assms]
        by (simp add: Addr_Write_to_def)
    next
      case False
      show ?thesis
        using ip False s1 k1 Addr_Write_port_keeps [of Q uw a w1, OF assms]
        by (simp add: Addr_Write_to_def)
    qed
  qed
qed

lemma sock_Write_closed: "closed (snd (sock_Write p u)) = closed u"
  by (simp add: sock_Write_def)

lemma Reply_Write_keeps:
  assumes "Reply_Write sock_Write sw r u = (e, u')"
  shows "closed u' = closed u \<and> (\<forall>code cause. e \<noteq> Some (SOCKSErr code cause))"
proof (cases "Bnd r")
  case None
  with assms show ?thesis
    by (auto simp: Reply_Write_def)
next
  case (Some d)
  obtain e1 w1 where s1: "bufio_Write sock_Write [Version, Rep r, 0]
      (NewWriter_over (3 + Addr_Len d) u) = (e1, w1)"
    by (cases "bufio_Write sock_Write [Version, Rep r, 0] (NewWriter_over (3 + Addr_Len d) u)")
  have k1: "closed (bwr w1) = closed u \<and> bsize w1 = 3 + Addr_Len d"
    using bufio_Write_keeps [of closed sock_Write "[Version, Rep r, 0]"
        "NewWriter_over (3 + Addr_Len d) u", OF sock_Write_closed] s1
    by (simp add: NewWriter_over_def)
  obtain e2 w2 where s2: "Addr_Write_to sock_Write sw d w1 = (e2, w2)"
    by (cases "Addr_Write_to sock_Write sw d w1")
  have k2: "closed (bwr w2) = closed (bwr w1) \<and>
      (e2 = None \<or> e2 = Some (ErrNew ErrProtocol ''invalid ip address''))"
    using Addr_Write_to_keeps [of closed sock_Write sw d w1, OF sock_Write_closed] s2 by simp
  have b: "Addr_Write_bufio sock_Write sw d w1 = (e2, w2)"
    using k1 s2 by (simp add: Addr_Write_bufio_def)
  obtain e3 w3 where s3: "bufio_Flush sock_Write w2 = (e3, w3)"
    by (cases "bufio_Flush sock_Write w2")
  have k3: "closed (bwr w3) = closed (bwr w2)"
    using bufio_Flush_keeps [of closed sock_Write w2, OF sock_Write_closed] s3 by simp
  show ?thesis
    using assms Some s1 b s3 k1 k2 k3
    by (auto simp: Reply_Write_def split: option.splits)
qed

section \<open>The network of a decoded address\<close>

lemma valid_NilAddr: "valid_Addr NilAddr"
  by (simp add: valid_Addr_def NilAddr_def text_eval)

lemma wire_NilAddr: "wire_Addr NilAddr = [AddrIPV4, 0, 0, 0, 0, 0, 0]"
  by (simp add: wire_Addr_def NilAddr_def text_eval port_bytes_def)


section \<open>The server on given inputs\<close>

text \<open>
  C7.  A server with the method no-authentication receives 05 01 02, a list that
  offers only the password method: it replies 05 FF, \<open>negotiator.Reply\<close> returns its
  error, and \<open>Server.serve\<close> returns with the socket of the client still open.
\<close>

theorem serve_failed_negotiation_leaves_socket_open:
  "Server_serve \<lparr>SAuth = NoAuth, Timeout = 0, UDPBuffer = 65535, sctx = Context None\<rparr>
     ev tctx transfer 0 (idle(0 := received [5, 1, 2])) =
   (Some (ErrNew ErrProtocol ''authentication method is not supported by the client''),
    idle(0 := \<lparr>rx = [], tx = [[5, 255]], closed = False\<rparr>))"
  by (simp add: Server_serve_def Server_auth_def negotiator_Reply_def read_eval
      NegotiationRequest_Read_def NegotiationReply_Write_def Auth_Method_def NewConn_def
      received_def isSOCKS5_def Version_def MethodNotRequired_def MethodNoAcceptable_def
      bytes2Methods_def)

text \<open>
  C6.  After the negotiation the client sends 05 09 00 01 7f 00 00 01 00 50, a request
  with the unknown command 0x09: \<open>Request.Read\<close> fails with the reply code 0x07, and
  \<open>Server.handle\<close> returns this error with no reply written to the client and the
  socket of the client still open.
\<close>

theorem handle_sends_no_reply_for_unknown_command:
  "Server_handle \<lparr>SAuth = NoAuth, Timeout = 0, UDPBuffer = 65535, sctx = Context None\<rparr>
     ev tctx (NewConn 0) (idle(0 := received [5, 9, 0, 1, 127, 0, 0, 1, 0, 80])) =
   (None, Some (SOCKSErr RepCmdNotSupported (ErrNew ErrProtocol ''unknown command'')),
    NewConn 0,
    idle(0 := \<lparr>rx = [1, 127, 0, 0, 1, 0, 80], tx = [], closed = False\<rparr>))"
  by (simp add: Server_handle_def timeoutEnabled_def read_eval Request_Read_def
      NewConn_def received_def isSOCKS5_def Version_def cmdType_Valid_def SOCKSError_def
      RepCmdNotSupported_def RepSucceeded_def)

text \<open>
  A failure inside a handler does send the reply.  The client asks for a connection to
  127.0.0.1:80 and the dialer fails: \<open>Server.handle\<close> writes the failure reply
  05 04 00 01 00 00 00 00 00 00, with the code of an unreachable host and the nil
  address, and closes the connection of the client.
\<close>

lemma handle_dial_failure_sends_reply:
  assumes "dial ev ''tcp'' ''127.0.0.1:80'' = Inl e"
  shows "Server_handle \<lparr>SAuth = NoAuth, Timeout = 0, UDPBuffer = 65535, sctx = Context None\<rparr>
     ev tctx (NewConn 0) (idle(0 := received [5, 1, 0, 1, 127, 0, 0, 1, 0, 80])) =
   (None, Some (SOCKSErr RepHostUnreachable (ErrorContext RepHostUnreachable)),
    (NewConn 0)\<lparr>alive := False\<rparr>,
    idle(0 := \<lparr>rx = [], tx = [[5, 4, 0, 1, 0, 0, 0, 0, 0, 0]], closed = True\<rparr>))"
proof -
  let ?d = "\<lparr>network = ''tcp'', Atyp = AddrIPV4, Host = ''127.0.0.1'', Port = 80\<rparr>"
  have rd: "Request_Read sock_Read \<lparr>Cmd = 0, Dst = None\<rparr>
      (received [5, 1, 0, 1, 127, 0, 0, 1, 0, 80]) =
      (None, \<lparr>Cmd = CmdConnect, Dst = Some ?d\<rparr>, received [])"
    by (simp add: Request_Read_def read_eval Addr_Read_def Addr_Read_port_def isSOCKS5_def
        Version_def cmdType_Valid_def cmdType_Network_def CmdConnect_def CmdBind_def CmdUDP_def
        AddrIPV4_def AddrIPv6_def AddrDomain_def ipLength_def new_Addr_def IP_String_def To4_def
        appendTo4_def appendDecimal_def digitChar_def bytes_port_def received_def)
  have s: "Addr_String ?d = ''127.0.0.1:80''"
    by (simp add: Addr_String_def JoinHostPort_def digitChar_def)
  have h: "handleCONNECT ev (Context None) (NewConn 0) \<lparr>Cmd = CmdConnect, Dst = Some ?d\<rparr>
      (idle(0 := received [])) =
      (None, Some (SOCKSErr RepHostUnreachable (ErrorContext RepHostUnreachable)),
       Context None, NewConn 0, idle(0 := received []))"
    using assms
    by (simp add: handleCONNECT_def s makeErrorContext_def SOCKSError_def
        RepHostUnreachable_def RepSucceeded_def)
  have f: "sendFailReply (Context None) (NewConn 0) (idle(0 := received [])) RepHostUnreachable =
      (Context None, NewConn 0,
       idle(0 := \<lparr>rx = [], tx = [[5, 4, 0, 1, 0, 0, 0, 0, 0, 0]], closed = False\<rparr>))"
    using Reply_Write_wire [of NilAddr "\<lparr>Rep = RepHostUnreachable, Bnd = Some NilAddr\<rparr>"
        "received []" False]
    by (simp add: sendFailReply_def Conn_WriteMessage_def processMessage_def NewConn_def
        valid_NilAddr wire_NilAddr received_def Version_def RepHostUnreachable_def
        AddrIPV4_def)
  have c: "Conn_Close (NewConn 0)
      (idle(0 := \<lparr>rx = [], tx = [[5, 4, 0, 1, 0, 0, 0, 0, 0, 0]], closed = False\<rparr>)) =
      (None, (NewConn 0)\<lparr>alive := False\<rparr>,
       idle(0 := \<lparr>rx = [], tx = [[5, 4, 0, 1, 0, 0, 0, 0, 0, 0]], closed = True\<rparr>))"
    by (simp add: Conn_Close_def net_Close_def sock_Close_def NewConn_def)
  have r: "Conn_ReadMessage (Context None) (NewConn 0)
      (idle(0 := received [5, 1, 0, 1, 127, 0, 0, 1, 0, 80]))
      \<lparr>Cmd = 0, Dst = None\<rparr> (Request_Read sock_Read) =
      (None, \<lparr>Cmd = CmdConnect, Dst = Some ?d\<rparr>, Context None, NewConn 0,
       idle(0 := received []))"
    by (simp add: Conn_ReadMessage_def processMessage_def NewConn_def rd)
  show ?thesis
    by (simp add: Server_handle_def timeoutEnabled_def r h f c)
qed

section \<open>The type of an address\<close>

text \<open>
  \<open>netip.parseIPv4Fields\<close> accepts digits and dots only, and at least one dot, so that
  \<open>net.ParseIP\<close> hands every string that it accepts to it.
\<close>

lemma isDigit_not_special:
  "isDigit c \<Longrightarrow> c \<noteq> CHR ''.'' \<and> c \<noteq> CHR '':'' \<and> c \<noteq> CHR ''%''"
  by (auto simp add: isDigit_def)

lemma parseIPv4Fields_loop_dot:
  "parseIPv4Fields_loop s prev val digLen fs = Some r \<Longrightarrow> length fs < 3 \<Longrightarrow>
   firstSpecial s = Some (CHR ''.'')"
proof (induction s arbitrary: prev val digLen fs)
  case Nil
  then show ?case by simp
next
  case (Cons c cs)
  show ?case
  proof (cases "isDigit c")
    case True
    from True Cons.prems(1)
    have "parseIPv4Fields_loop cs (Some c) (val * 10 + digitVal c) (digLen + 1) fs = Some r"
      by (simp add: Let_def split: if_splits)
    from Cons.IH [OF this Cons.prems(2)] isDigit_not_special [OF True] show ?thesis
      by simp
  next
    case False
    with Cons.prems(1) have "c = CHR ''.''"
      by (simp split: if_splits)
    then show ?thesis by simp
  qed
qed

lemma parseIPv4Fields_dot:
  "parseIPv4Fields h = Some f \<Longrightarrow> firstSpecial h = Some (CHR ''.'')"
  using parseIPv4Fields_loop_dot [of h None 0 0 "[]" f] by (simp add: parseIPv4Fields_def)

lemma To4_IPv4: "To4 (Some (IPv4 a b c d)) = Some [a, b, c, d]"
  by (simp add: To4_def IPv4_def)

lemma parseAtyp_IPv4_literal:
  "parseIPv4Fields h = Some f \<Longrightarrow> parseAtyp h = AddrIPV4"
  using parseIPv4Fields_dot [of h f]
  by (simp add: parseAtyp_def ParseIP_def To4_IPv4)

lemma shiftRight_length: "length (shiftRight j lo n ip) = length ip"
  by (induction j lo n ip rule: shiftRight.induct) simp_all

lemma clearRange_length: "length (clearRange lo n ip) = length ip"
  by (induction lo n ip rule: clearRange.induct) simp_all

text \<open>Every address that \<open>netip.parseIPv6\<close> returns has sixteen bytes.\<close>

lemma parseIPv6_loop_length:
  "parseIPv6_loop s i e ip = Some (s', i', e', ip') \<Longrightarrow> length ip' = length ip"
proof (induction s i e ip rule: parseIPv6_loop.induct)
  case (1 s i e ip)
  show ?case
  proof (cases "i < 16")
    case False
    with "1.prems" show ?thesis
      by (subst (asm) parseIPv6_loop.simps) (simp del: parseIPv6_loop.simps)
  next
    case lt: True
    show ?thesis
    proof (cases "scanHex s 0 0")
      case None
      with "1.prems" lt show ?thesis
        by (subst (asm) parseIPv6_loop.simps) (simp del: parseIPv6_loop.simps)
    next
      case (Some p)
      obtain off acc where p: "p = (off, acc)" by (cases p)
      note sh = Some [unfolded p]
      show ?thesis
      proof (cases "off = 0")
        case True
        with "1.prems" lt sh show ?thesis
          by (subst (asm) parseIPv6_loop.simps) (simp del: parseIPv6_loop.simps)
      next
        case nz: False
        show ?thesis
        proof (cases "off < length s \<and> s ! off = CHR ''.''")
          case True
          with "1.prems" lt sh nz show ?thesis
            by (subst (asm) parseIPv6_loop.simps)
               (auto simp del: parseIPv6_loop.simps split: if_splits option.splits)
        next
          case nd: False
          define ip1 where "ip1 = ip[i := of_nat (acc div 256), i + 1 := of_nat acc]"
          have l1: "length ip1 = length ip" by (simp add: ip1_def)
          have IH1: "drop off s \<noteq> [] \<Longrightarrow> hd (drop off s) = CHR '':'' \<Longrightarrow>
              length (drop off s) \<noteq> 1 \<Longrightarrow> hd (tl (drop off s)) = CHR '':'' \<Longrightarrow> e = None \<Longrightarrow>
              tl (tl (drop off s)) \<noteq> [] \<Longrightarrow>
              parseIPv6_loop (tl (tl (drop off s))) (i + 2) (Some (i + 2)) ip1 =
                Some (s', i', e', ip') \<Longrightarrow> length ip' = length ip1"
            using "1.IH"(1) [of "(off, acc)" off acc ip1 "i + 2" "drop off s" "tl (drop off s)"]
              lt sh nz nd
            by (simp add: ip1_def del: parseIPv6_loop.simps)
          have IH2: "drop off s \<noteq> [] \<Longrightarrow> hd (drop off s) = CHR '':'' \<Longrightarrow>
              length (drop off s) \<noteq> 1 \<Longrightarrow> hd (tl (drop off s)) \<noteq> CHR '':'' \<Longrightarrow>
              parseIPv6_loop (tl (drop off s)) (i + 2) e ip1 =
                Some (s', i', e', ip') \<Longrightarrow> length ip' = length ip1"
            using "1.IH"(2) [of "(off, acc)" off acc ip1 "i + 2" "drop off s" "tl (drop off s)"]
              lt sh nz nd
            by (simp add: ip1_def del: parseIPv6_loop.simps)
          have "parseIPv6_loop s i e ip =
              (if drop off s = [] then Some (drop off s, i + 2, e, ip1)
               else if hd (drop off s) \<noteq> CHR '':'' then None
               else if length (drop off s) = 1 then None
               else if hd (tl (drop off s)) = CHR '':'' then
                 (if e \<noteq> None then None
                  else if tl (tl (drop off s)) = [] then Some ([], i + 2, Some (i + 2), ip1)
                  else parseIPv6_loop (tl (tl (drop off s))) (i + 2) (Some (i + 2)) ip1)
               else parseIPv6_loop (tl (drop off s)) (i + 2) e ip1)"
            using lt sh nz nd
            by (subst parseIPv6_loop.simps) (simp add: Let_def ip1_def del: parseIPv6_loop.simps)
          with "1.prems" IH1 IH2 l1 show ?thesis
            by (auto simp del: parseIPv6_loop.simps split: if_splits)
        qed
      qed
    qed
  qed
qed

lemma take12:
  "length (ip :: byte list) = 16 \<Longrightarrow>
   (take 12 ip = [0, 0, 0, 0, 0, 0, 0, 0, 0, 0, 0xff, 0xff]) =
   (take 10 ip = [0, 0, 0, 0, 0, 0, 0, 0, 0, 0] \<and> ip ! 10 = 0xff \<and> ip ! 11 = 0xff)"
proof -
  assume l: "length ip = 16"
  have a: "take 12 ip = take 10 ip @ take 2 (drop 10 ip)"
    using take_add [of 10 2 ip] by simp
  have b: "take 2 (drop 10 ip) = [ip ! 10, ip ! 11]"
    using l by (simp add: take_Suc_conv_app_nth numeral_2_eq_2)
  show ?thesis
    using l by (simp add: a b)
qed

lemma parseIPv6_length:
  "parseIPv6 h = Some (ip, z) \<Longrightarrow> length ip = 16"
  using parseIPv6_loop_length
  by (auto simp add: parseIPv6_def Let_def zero16_def shiftRight_length clearRange_length
      simp del: parseIPv6_loop.simps split: option.splits prod.splits if_splits)

lemma parseAtyp_IPv6_literal:
  assumes "firstSpecial h = Some (CHR '':'')" and "parseIPv6 h = Some (ip, '''')"
  shows "parseAtyp h =
    (if take 12 ip = [0, 0, 0, 0, 0, 0, 0, 0, 0, 0, 0xff, 0xff] then AddrIPV4 else AddrIPv6)"
proof -
  have p: "ParseIP h = Some ip"
    using assms by (simp add: ParseIP_def)
  have l: "length ip = 16"
    using parseIPv6_length [OF assms(2)] .
  show ?thesis
    using take12 [OF l] l by (simp add: parseAtyp_def p To4_def To16_def)
qed

lemma parseAtyp_no_IP: "ParseIP h = None \<Longrightarrow> parseAtyp h = AddrDomain"
  by (simp add: parseAtyp_def To4_def To16_def)

lemma parseAtyp_unspecified: "parseAtyp ''0.0.0.0'' = AddrIPV4"
  by (simp add: parseAtyp_def ip_eval)

lemma ParseAddr_empty_host:
  "SplitHostPort addr = Some ('''', port) \<Longrightarrow> ParseUint port = Some n \<Longrightarrow>
   ParseAddr nw addr =
     Some \<lparr>network = nw, Atyp = AddrIPV4, Host = ''0.0.0.0'', Port = of_nat n\<rparr>"
  by (simp add: ParseAddr_def parseAtyp_unspecified)

text \<open>
  C9, as the specification states it, fails.  The host \<open>::ffff:1.2.3.4\<close> is not accepted
  by the parser of IPv4 literals; it is an IPv6 literal, accepted by \<open>netip.parseIPv6\<close>
  with no zone, and \<open>parseAtyp\<close> gives it the type IPv4, not IPv6: \<open>parseAtyp\<close> asks
  \<open>ip.To4() != nil\<close> first, which holds for every IPv4-mapped IPv6 address.
\<close>

theorem parseAtyp_mapped_IPv6_counterexample:
  "parseIPv4Fields ''::ffff:1.2.3.4'' = None \<and>
   firstSpecial ''::ffff:1.2.3.4'' = Some (CHR '':'') \<and>
   parseIPv6 ''::ffff:1.2.3.4'' =
     Some ([0, 0, 0, 0, 0, 0, 0, 0, 0, 0, 0xff, 0xff, 1, 2, 3, 4], '''') \<and>
   parseAtyp ''::ffff:1.2.3.4'' = AddrIPV4 \<and>
   parseAtyp ''::ffff:1.2.3.4'' \<noteq> AddrIPv6"
  by (simp add: parseAtyp_def ip_eval AddrIPV4_def AddrIPv6_def)

text \<open>
  C9, amended.  The type of a host is decided by the address that \<open>net.ParseIP\<close> returns
  for it, not by the form of the literal.  A host that the parser of IPv4 literals accepts
  has the type IPv4.  A host that is an IPv6 literal without a zone has the type IPv4
  when its address is an IPv4-mapped one (the first twelve of its sixteen bytes are ten
  zeros and ff ff, as for \<open>::ffff:1.2.3.4\<close>), and the type IPv6 otherwise.  A host for
  which \<open>net.ParseIP\<close> returns nil has the type DOMAIN.  \<open>ParseAddr\<close> replaces an empty
  host by \<open>0.0.0.0\<close> before it asks for the type, so the address has this host and the type
  IPv4.
\<close>

theorem parseAtyp_classifies:
  "(parseIPv4Fields h4 = Some f \<longrightarrow> parseAtyp h4 = AddrIPV4) \<and>
   (firstSpecial h6 = Some (CHR '':'') \<and> parseIPv6 h6 = Some (ip, '''') \<longrightarrow>
      parseAtyp h6 =
        (if take 12 ip = [0, 0, 0, 0, 0, 0, 0, 0, 0, 0, 0xff, 0xff] then AddrIPV4
         else AddrIPv6)) \<and>
   (ParseIP hn = None \<longrightarrow> parseAtyp hn = AddrDomain) \<and>
   (SplitHostPort addr = Some ('''', port) \<and> ParseUint port = Some n \<longrightarrow>
      ParseAddr nw addr =
        Some \<lparr>network = nw, Atyp = AddrIPV4, Host = ''0.0.0.0'', Port = of_nat n\<rparr>)"
  using parseAtyp_IPv4_literal [of h4 f] parseAtyp_IPv6_literal [of h6 ip]
    parseAtyp_no_IP [of hn] ParseAddr_empty_host [of addr port n nw]
  by blast

theorem parseAtyp_classifies_witness:
  "parseIPv4Fields ''192.168.0.1'' = Some [192, 168, 0, 1] \<and>
   parseAtyp ''192.168.0.1'' = AddrIPV4 \<and>
   firstSpecial ''2001:db8::1'' = Some (CHR '':'') \<and>
   parseIPv6 ''2001:db8::1'' =
     Some ([0x20, 0x01, 0x0d, 0xb8, 0, 0, 0, 0, 0, 0, 0, 0, 0, 0, 0, 1], '''') \<and>
   parseAtyp ''2001:db8::1'' = AddrIPv6 \<and>
   ParseIP ''example.com'' = None \<and>
   parseAtyp ''example.com'' = AddrDomain \<and>
   SplitHostPort '':1080'' = Some ('''', ''1080'') \<and>
   ParseUint ''1080'' = Some 1080 \<and>
   ParseAddr ''tcp'' '':1080'' =
     Some \<lparr>network = ''tcp'', Atyp = AddrIPV4, Host = ''0.0.0.0'', Port = 1080\<rparr>"
proof -
  have a: "parseIPv4Fields ''192.168.0.1'' = Some [192, 168, 0, 1]"
    by (simp add: ip_eval)
  have b: "firstSpecial ''2001:db8::1'' = Some (CHR '':'')"
    by simp
  have c: "parseIPv6 ''2001:db8::1'' =
      Some ([0x20, 0x01, 0x0d, 0xb8, 0, 0, 0, 0, 0, 0, 0, 0, 0, 0, 0, 1], '''')"
    by (simp add: ip_eval)
  have d: "ParseIP ''example.com'' = None"
    by (simp add: ip_eval)
  have e: "SplitHostPort '':1080'' = Some ('''', ''1080'')"
    by (simp add: SplitHostPort_def lastIndexByte_def Let_def)
  have f: "ParseUint ''1080'' = Some 1080"
    by (simp add: ParseUint_def isDigit_def digitVal_def Let_def)
  from a b c d e f
    parseAtyp_classifies [of "''192.168.0.1''" "[192, 168, 0, 1]" "''2001:db8::1''"
      "[0x20, 0x01, 0x0d, 0xb8, 0, 0, 0, 0, 0, 0, 0, 0, 0, 0, 0, 1]" "''example.com''"
      "'':1080''" "''1080''" 1080 "''tcp''"]
  show ?thesis
    by simp
qed

end
